theory Spec2Isabelle
  imports Complex_Main
begin

section \<open>JavaScript numbers and values\<close>

text \<open>
  The two scripts (\<^verbatim>\<open>src/lorenz-funky.js\<close> and \<^verbatim>\<open>src/unnamed/part_000\<close>) compute
  with JavaScript numbers.  A number is modelled as a finite value or one of the three
  special values of IEEE arithmetic.  Finite values are real numbers: rounding and
  overflow of finite arithmetic are not modelled, and there is one zero (where IEEE
  distinguishes \<open>-0\<close>, the model has \<open>+0\<close>).
\<close>

datatype number = Fin real | PInf | NInf | NaN

instantiation number :: "{plus, minus, times, inverse, ord}"
begin

fun plus_number :: "number \<Rightarrow> number \<Rightarrow> number" where
  "Fin a + Fin b = Fin (a + b)"
| "NaN + _ = NaN"
| "_ + NaN = NaN"
| "PInf + NInf = NaN"
| "NInf + PInf = NaN"
| "PInf + _ = PInf"
| "_ + PInf = PInf"
| "NInf + _ = NInf"
| "_ + NInf = NInf"

fun minus_number :: "number \<Rightarrow> number \<Rightarrow> number" where
  "Fin a - Fin b = Fin (a - b)"
| "NaN - _ = NaN"
| "_ - NaN = NaN"
| "PInf - PInf = NaN"
| "NInf - NInf = NaN"
| "PInf - _ = PInf"
| "NInf - _ = NInf"
| "_ - PInf = NInf"
| "_ - NInf = PInf"

fun times_number :: "number \<Rightarrow> number \<Rightarrow> number" where
  "Fin a * Fin b = Fin (a * b)"
| "NaN * _ = NaN"
| "_ * NaN = NaN"
| "PInf * Fin b = (if b = 0 then NaN else if 0 < b then PInf else NInf)"
| "NInf * Fin b = (if b = 0 then NaN else if 0 < b then NInf else PInf)"
| "Fin a * PInf = (if a = 0 then NaN else if 0 < a then PInf else NInf)"
| "Fin a * NInf = (if a = 0 then NaN else if 0 < a then NInf else PInf)"
| "PInf * PInf = PInf"
| "PInf * NInf = NInf"
| "NInf * PInf = NInf"
| "NInf * NInf = PInf"

fun divide_number :: "number \<Rightarrow> number \<Rightarrow> number" where
  "divide_number (Fin a) (Fin b) =
     (if b \<noteq> 0 then Fin (a / b)
      else if a = 0 then NaN else if 0 < a then PInf else NInf)"
| "divide_number NaN _ = NaN"
| "divide_number _ NaN = NaN"
| "divide_number (Fin a) PInf = Fin 0"
| "divide_number (Fin a) NInf = Fin 0"
| "divide_number PInf (Fin b) = (if 0 \<le> b then PInf else NInf)"
| "divide_number NInf (Fin b) = (if 0 \<le> b then NInf else PInf)"
| "divide_number PInf PInf = NaN"
| "divide_number PInf NInf = NaN"
| "divide_number NInf PInf = NaN"
| "divide_number NInf NInf = NaN"

definition inverse_number :: "number \<Rightarrow> number" where
  "inverse_number a = divide (Fin 1) a"

text \<open>The comparisons \<^verbatim>\<open><\<close> and \<^verbatim>\<open><=\<close>: false as soon as an operand is NaN.\<close>

fun less_number :: "number \<Rightarrow> number \<Rightarrow> bool" where
  "Fin a < Fin b = (a < b)"
| "NaN < _ = False"
| "_ < NaN = False"
| "_ < NInf = False"
| "PInf < _ = False"
| "NInf < _ = True"
| "_ < PInf = True"

fun less_eq_number :: "number \<Rightarrow> number \<Rightarrow> bool" where
  "Fin a \<le> Fin b = (a \<le> b)"
| "NaN \<le> _ = False"
| "_ \<le> NaN = False"
| "NInf \<le> _ = True"
| "_ \<le> PInf = True"
| "PInf \<le> _ = False"
| "_ \<le> NInf = False"

instance ..

end

text \<open>\<^verbatim>\<open>Number.isFinite(n)\<close>, and the global \<^verbatim>\<open>isFinite(v)\<close> on a number.\<close>

fun isFinite :: "number \<Rightarrow> bool" where
  "isFinite (Fin a) = True"
| "isFinite _ = False"

text \<open>Strict equality \<^verbatim>\<open>a === b\<close> of two numbers: NaN equals nothing.\<close>

definition strict_eq :: "number \<Rightarrow> number \<Rightarrow> bool" where
  "strict_eq a b = (a \<noteq> NaN \<and> b \<noteq> NaN \<and> a = b)"

text \<open>
  \<^verbatim>\<open>Math.min(...)\<close> and \<^verbatim>\<open>Math.max(...)\<close> take any number of arguments: the result is NaN
  when an argument is NaN, \<open>+Infinity\<close> (respectively \<open>-Infinity\<close>) when there is none.
\<close>

definition min2 :: "number \<Rightarrow> number \<Rightarrow> number" where
  "min2 a b = (if a = NaN \<or> b = NaN then NaN else if b < a then b else a)"

definition max2 :: "number \<Rightarrow> number \<Rightarrow> number" where
  "max2 a b = (if a = NaN \<or> b = NaN then NaN else if a < b then b else a)"

definition Math_min :: "number list \<Rightarrow> number" where
  "Math_min args = foldl min2 PInf args"

definition Math_max :: "number list \<Rightarrow> number" where
  "Math_max args = foldl max2 NInf args"

text \<open>
  The values the helpers test dynamically: \<^verbatim>\<open>undefined\<close>, a number, or an array of
  numbers.  \<^verbatim>\<open>Number(v)\<close> converts: \<^verbatim>\<open>undefined\<close> to NaN; an array through its string,
  so \<^verbatim>\<open>[]\<close> to 0, a one-element array to its element, a longer one (its string has a
  comma) to NaN.
\<close>

datatype jsval = Undefined | Num number | Arr "number list"

fun Number :: "jsval \<Rightarrow> number" where
  "Number Undefined = NaN"
| "Number (Num n) = n"
| "Number (Arr []) = Fin 0"
| "Number (Arr [n]) = n"
| "Number (Arr (n # m # ms)) = NaN"

section \<open>Safety helpers\<close>

text \<open>
  \<^verbatim>\<open>
  const safeNum = (v, def=0) => {
    const n = Number(v);
    return Number.isFinite(n) ? n : def;
  };
  const safeArr = (arr, def=0) => (Array.isArray(arr) ? arr : [arr]).map(v => safeNum(v, def));
  const clampArr = (arr, lo, hi) => safeArr(arr).map(v => Math.max(lo, Math.min(hi, v)));
  \<close>
  The three are the same text in both files (lines 8 to 13 of the first, 126 to 131 of
  the second).  A default parameter is an optional argument: \<open>None\<close> is an argument
  left out (or \<^verbatim>\<open>undefined\<close>).
\<close>

text \<open>A parameter with a default value.\<close>

fun param :: "'a option \<Rightarrow> 'a \<Rightarrow> 'a" where
  "param None d = d"
| "param (Some v) d = v"

definition safeNum :: "jsval \<Rightarrow> number option \<Rightarrow> number" where
  "safeNum v def =
     (let n = Number v
      in if isFinite n then n else param def (Fin 0))"

definition safeArr :: "jsval \<Rightarrow> number option \<Rightarrow> number list" where
  "safeArr arr def =
     map (\<lambda>v. safeNum v def) (case arr of Arr a \<Rightarrow> map Num a | _ \<Rightarrow> [arr])"

definition clampArr :: "jsval \<Rightarrow> number \<Rightarrow> number \<Rightarrow> number list" where
  "clampArr arr lo hi =
     map (\<lambda>v. Math_max [lo, Math_min [hi, v]]) (safeArr arr None)"

section \<open>The Lorenz integrator\<close>

text \<open>A recorded state \<^verbatim>\<open>{ x, y, z }\<close>.\<close>

record point =
  px :: number
  py :: number
  pz :: number

text \<open>
  \<^verbatim>\<open>src/lorenz-funky.js\<close>, lines 16 to 42.  The derivative closures \<^verbatim>\<open>dx\<close>, \<^verbatim>\<open>dy\<close>,
  \<^verbatim>\<open>dz\<close> take the constants they capture as arguments.  \<open>lorenz_update\<close> is one pass
  through the body of the \<^verbatim>\<open>for\<close> loop, from the locals \<^verbatim>\<open>x, y, z\<close> to their new values;
  \<open>lorenz_loop\<close> is the loop, with its counter \<^verbatim>\<open>i\<close> and the array \<^verbatim>\<open>pts\<close>.
\<close>

definition dx :: "number \<Rightarrow> number \<Rightarrow> number \<Rightarrow> number" where
  "dx sigma x y = sigma * (y - x)"

definition dy :: "number \<Rightarrow> number \<Rightarrow> number \<Rightarrow> number \<Rightarrow> number" where
  "dy rho x y z = x * (rho - z) - y"

definition dz :: "number \<Rightarrow> number \<Rightarrow> number \<Rightarrow> number \<Rightarrow> number" where
  "dz beta x y z = x * y - beta * z"

definition lorenz_update :: "number \<Rightarrow> number \<Rightarrow> number \<Rightarrow> number \<Rightarrow> point \<Rightarrow> point" where
  "lorenz_update dt sigma rho beta p =
     (let x = px p; y = py p; z = pz p;
          k1x = dx sigma x y; k1y = dy rho x y z; k1z = dz beta x y z;
          k2x = dx sigma (x + Fin 0.5 * dt * k1x) (y + Fin 0.5 * dt * k1y);
          k2y = dy rho (x + Fin 0.5 * dt * k1x) (y + Fin 0.5 * dt * k1y) (z + Fin 0.5 * dt * k1z);
          k2z = dz beta (x + Fin 0.5 * dt * k1x) (y + Fin 0.5 * dt * k1y) (z + Fin 0.5 * dt * k1z);
          k3x = dx sigma (x + Fin 0.5 * dt * k2x) (y + Fin 0.5 * dt * k2y);
          k3y = dy rho (x + Fin 0.5 * dt * k2x) (y + Fin 0.5 * dt * k2y) (z + Fin 0.5 * dt * k2z);
          k3z = dz beta (x + Fin 0.5 * dt * k2x) (y + Fin 0.5 * dt * k2y) (z + Fin 0.5 * dt * k2z);
          k4x = dx sigma (x + dt * k3x) (y + dt * k3y);
          k4y = dy rho (x + dt * k3x) (y + dt * k3y) (z + dt * k3z);
          k4z = dz beta (x + dt * k3x) (y + dt * k3y) (z + dt * k3z)
      in \<lparr>px = x + (dt / Fin 6) * (k1x + Fin 2 * k2x + Fin 2 * k3x + k4x),
          py = y + (dt / Fin 6) * (k1y + Fin 2 * k2y + Fin 2 * k3y + k4y),
          pz = z + (dt / Fin 6) * (k1z + Fin 2 * k2z + Fin 2 * k3z + k4z)\<rparr>)"

function lorenz_loop ::
  "nat \<Rightarrow> nat \<Rightarrow> number \<Rightarrow> number \<Rightarrow> number \<Rightarrow> number \<Rightarrow> point \<Rightarrow> point list \<Rightarrow> point list" where
  "lorenz_loop i steps dt sigma rho beta p pts =
     (if i < steps
      then (let p' = lorenz_update dt sigma rho beta p
            in lorenz_loop (Suc i) steps dt sigma rho beta p' (pts @ [p']))
      else pts)"
  by pat_completeness auto
termination
  by (relation "measure (\<lambda>(i, steps, dt, sigma, rho, beta, p, pts). steps - i)") auto

text \<open>
  \<^verbatim>\<open>const lorenz = (steps = 4096, dt = 0.01, sigma = 10, rho = 28, beta = 8/3) => ...\<close>
  The step count is a natural number; \<open>None\<close> is an argument left out.
\<close>

definition lorenz ::
  "nat option \<Rightarrow> number option \<Rightarrow> number option \<Rightarrow> number option \<Rightarrow> number option \<Rightarrow> point list" where
  "lorenz steps dt sigma rho beta =
     lorenz_loop 0
       (param steps 4096)
       (param dt (Fin 0.01))
       (param sigma (Fin 10))
       (param rho (Fin 28))
       (param beta (Fin 8 / Fin 3))
       \<lparr>px = Fin 1, py = Fin 1, pz = Fin 1\<rparr> []"

text \<open>\<^verbatim>\<open>src/unnamed/part_000\<close>, lines 25 to 60: the integrator of the second script.\<close>

definition dx_part000 :: "number \<Rightarrow> number \<Rightarrow> number \<Rightarrow> number" where
  "dx_part000 sigma x y = sigma * (y - x)"

definition dy_part000 :: "number \<Rightarrow> number \<Rightarrow> number \<Rightarrow> number \<Rightarrow> number" where
  "dy_part000 rho x y z = x * (rho - z) - y"

definition dz_part000 :: "number \<Rightarrow> number \<Rightarrow> number \<Rightarrow> number \<Rightarrow> number" where
  "dz_part000 beta x y z = x * y - beta * z"

definition lorenz_update_part000 ::
  "number \<Rightarrow> number \<Rightarrow> number \<Rightarrow> number \<Rightarrow> point \<Rightarrow> point" where
  "lorenz_update_part000 dt sigma rho beta p =
     (let x = px p; y = py p; z = pz p;
          k1x = dx_part000 sigma x y;
          k1y = dy_part000 rho x y z;
          k1z = dz_part000 beta x y z;
          k2x = dx_part000 sigma (x + Fin 0.5 * dt * k1x) (y + Fin 0.5 * dt * k1y);
          k2y = dy_part000 rho (x + Fin 0.5 * dt * k1x) (y + Fin 0.5 * dt * k1y)
                  (z + Fin 0.5 * dt * k1z);
          k2z = dz_part000 beta (x + Fin 0.5 * dt * k1x) (y + Fin 0.5 * dt * k1y)
                  (z + Fin 0.5 * dt * k1z);
          k3x = dx_part000 sigma (x + Fin 0.5 * dt * k2x) (y + Fin 0.5 * dt * k2y);
          k3y = dy_part000 rho (x + Fin 0.5 * dt * k2x) (y + Fin 0.5 * dt * k2y)
                  (z + Fin 0.5 * dt * k2z);
          k3z = dz_part000 beta (x + Fin 0.5 * dt * k2x) (y + Fin 0.5 * dt * k2y)
                  (z + Fin 0.5 * dt * k2z);
          k4x = dx_part000 sigma (x + dt * k3x) (y + dt * k3y);
          k4y = dy_part000 rho (x + dt * k3x) (y + dt * k3y) (z + dt * k3z);
          k4z = dz_part000 beta (x + dt * k3x) (y + dt * k3y) (z + dt * k3z);
          x' = x + (dt / Fin 6) * (k1x + Fin 2 * k2x + Fin 2 * k3x + k4x);
          y' = y + (dt / Fin 6) * (k1y + Fin 2 * k2y + Fin 2 * k3y + k4y);
          z' = z + (dt / Fin 6) * (k1z + Fin 2 * k2z + Fin 2 * k3z + k4z)
      in \<lparr>px = x', py = y', pz = z'\<rparr>)"

function lorenz_loop_part000 ::
  "nat \<Rightarrow> nat \<Rightarrow> number \<Rightarrow> number \<Rightarrow> number \<Rightarrow> number \<Rightarrow> point \<Rightarrow> point list \<Rightarrow> point list" where
  "lorenz_loop_part000 i steps dt sigma rho beta p pts =
     (if i < steps
      then (let p' = lorenz_update_part000 dt sigma rho beta p
            in lorenz_loop_part000 (Suc i) steps dt sigma rho beta p' (pts @ [p']))
      else pts)"
  by pat_completeness auto
termination
  by (relation "measure (\<lambda>(i, steps, dt, sigma, rho, beta, p, pts). steps - i)") auto

declare lorenz_loop.simps [simp del] lorenz_loop_part000.simps [simp del]

definition lorenz_part000 ::
  "nat option \<Rightarrow> number option \<Rightarrow> number option \<Rightarrow> number option \<Rightarrow> number option \<Rightarrow> point list" where
  "lorenz_part000 steps dt sigma rho beta =
     lorenz_loop_part000 0
       (param steps 1536)
       (param dt (Fin 0.01))
       (param sigma (Fin 10))
       (param rho (Fin 28))
       (param beta (Fin 8 / Fin 3))
       \<lparr>px = Fin 1, py = Fin 1, pz = Fin 1\<rparr> []"

subsection \<open>The classic Runge-Kutta step, from its textbook statement\<close>

text \<open>
  The Lorenz vector field \<open>dx/dt = \<sigma>(y - x)\<close>, \<open>dy/dt = x(\<rho> - z) - y\<close>,
  \<open>dz/dt = xy - \<beta>z\<close>, and the four-stage step
  \<open>s' = s + (h/6)(k1 + 2 k2 + 2 k3 + k4)\<close> with \<open>k1 = f s\<close>, \<open>k2 = f (s + (h/2) k1)\<close>,
  \<open>k3 = f (s + (h/2) k2)\<close>, \<open>k4 = f (s + h k3)\<close>, on vectors of three numbers.
\<close>

definition vadd :: "point \<Rightarrow> point \<Rightarrow> point" where
  "vadd u v = \<lparr>px = px u + px v, py = py u + py v, pz = pz u + pz v\<rparr>"

definition smul :: "number \<Rightarrow> point \<Rightarrow> point" where
  "smul c v = \<lparr>px = c * px v, py = c * py v, pz = c * pz v\<rparr>"

definition lorenz_field :: "number \<Rightarrow> number \<Rightarrow> number \<Rightarrow> point \<Rightarrow> point" where
  "lorenz_field sigma rho beta s =
     \<lparr>px = sigma * (py s - px s),
      py = px s * (rho - pz s) - py s,
      pz = px s * py s - beta * pz s\<rparr>"

definition rk4 :: "(point \<Rightarrow> point) \<Rightarrow> number \<Rightarrow> point \<Rightarrow> point" where
  "rk4 f h s =
     (let k1 = f s;
          k2 = f (vadd s (smul (h / Fin 2) k1));
          k3 = f (vadd s (smul (h / Fin 2) k2));
          k4 = f (vadd s (smul h k3))
      in vadd s (smul (h / Fin 6)
           (vadd (vadd (vadd k1 (smul (Fin 2) k2)) (smul (Fin 2) k3)) k4)))"

definition initial :: point where
  "initial = \<lparr>px = Fin 1, py = Fin 1, pz = Fin 1\<rparr>"

section \<open>Mathematical functions and array reads\<close>

text \<open>
  \<^verbatim>\<open>Math.floor\<close>, \<^verbatim>\<open>Math.round\<close> (halves go up), \<^verbatim>\<open>Math.sqrt\<close>, \<^verbatim>\<open>Math.pow\<close> with a natural
  exponent (the scripts write \<^verbatim>\<open>Math.pow(v, 2)\<close>), \<^verbatim>\<open>Math.sin\<close> and \<^verbatim>\<open>Math.atan2\<close>, with
  their values at the infinities and at NaN.
\<close>

fun Math_floor :: "number \<Rightarrow> number" where
  "Math_floor (Fin r) = Fin (of_int \<lfloor>r\<rfloor>)"
| "Math_floor v = v"

fun Math_round :: "number \<Rightarrow> number" where
  "Math_round (Fin r) = Fin (of_int \<lfloor>r + 1 / 2\<rfloor>)"
| "Math_round v = v"

fun Math_sqrt :: "number \<Rightarrow> number" where
  "Math_sqrt (Fin r) = (if r < 0 then NaN else Fin (sqrt r))"
| "Math_sqrt PInf = PInf"
| "Math_sqrt NInf = NaN"
| "Math_sqrt NaN = NaN"

fun Math_pow :: "number \<Rightarrow> nat \<Rightarrow> number" where
  "Math_pow (Fin r) n = Fin (r ^ n)"
| "Math_pow PInf n = (if n = 0 then Fin 1 else PInf)"
| "Math_pow NInf n = (if n = 0 then Fin 1 else if even n then PInf else NInf)"
| "Math_pow NaN n = (if n = 0 then Fin 1 else NaN)"

fun Math_sin :: "number \<Rightarrow> number" where
  "Math_sin (Fin r) = Fin (sin r)"
| "Math_sin v = NaN"

fun Math_atan2 :: "number \<Rightarrow> number \<Rightarrow> number" where
  "Math_atan2 NaN v = NaN"
| "Math_atan2 u NaN = NaN"
| "Math_atan2 PInf PInf = Fin (pi / 4)"
| "Math_atan2 PInf NInf = Fin (3 * pi / 4)"
| "Math_atan2 PInf (Fin a) = Fin (pi / 2)"
| "Math_atan2 NInf PInf = Fin (- (pi / 4))"
| "Math_atan2 NInf NInf = Fin (- (3 * pi / 4))"
| "Math_atan2 NInf (Fin a) = Fin (- (pi / 2))"
| "Math_atan2 (Fin b) PInf = Fin 0"
| "Math_atan2 (Fin b) NInf = (if 0 \<le> b then Fin pi else Fin (- pi))"
| "Math_atan2 (Fin b) (Fin a) =
     (if 0 < a then Fin (arctan (b / a))
      else if a < 0 then (if 0 \<le> b then Fin (arctan (b / a) + pi) else Fin (arctan (b / a) - pi))
      else if 0 < b then Fin (pi / 2)
      else if b < 0 then Fin (- (pi / 2))
      else Fin 0)"

text \<open>
  Reading an array: \<^verbatim>\<open>arr[i]\<close> with a loop index \<open>i\<close>, and \<^verbatim>\<open>arr[k]\<close> with a computed
  key \<open>k\<close> (a number, or \<^verbatim>\<open>undefined\<close>).  A read outside the array gives \<^verbatim>\<open>undefined\<close>
  (\<open>None\<close>); so does a key that is no index (negative, fractional, infinite, NaN,
  \<^verbatim>\<open>undefined\<close>).  In arithmetic \<^verbatim>\<open>undefined\<close> becomes NaN (\<open>ToNumber\<close>); in
  \<^verbatim>\<open>v || d\<close> the values \<^verbatim>\<open>undefined\<close>, NaN and 0 are the falsy ones.
\<close>

definition elem :: "'a list \<Rightarrow> nat \<Rightarrow> 'a option" where
  "elem arr i = (if i < length arr then Some (arr ! i) else None)"

fun key :: "'a list \<Rightarrow> number option \<Rightarrow> 'a option" where
  "key arr (Some (Fin r)) =
     (if 0 \<le> r \<and> r = of_int \<lfloor>r\<rfloor> \<and> nat \<lfloor>r\<rfloor> < length arr
      then Some (arr ! nat \<lfloor>r\<rfloor>) else None)"
| "key arr k = None"

fun ToNumber :: "number option \<Rightarrow> number" where
  "ToNumber None = NaN"
| "ToNumber (Some n) = n"

fun or_else :: "number option \<Rightarrow> number \<Rightarrow> number" where
  "or_else None d = d"
| "or_else (Some n) d = (if n = NaN \<or> n = Fin 0 then d else n)"

text \<open>\<^verbatim>\<open>arr.filter((_, i) => P(i))\<close>: the elements whose index satisfies \<open>P\<close>.\<close>

definition filter_index :: "(nat \<Rightarrow> bool) \<Rightarrow> 'a list \<Rightarrow> 'a list" where
  "filter_index P arr = map (\<lambda>i. arr ! i) (filter P [0..<length arr])"

section \<open>Data processing\<close>

text \<open>
  \<^verbatim>\<open>
  const norm = arr => {
    const finite = arr.filter(v => isFinite(v));
    if (finite.length === 0) return arr.map(() => 0.5);
    const mn = Math.min(...finite);
    const mx = Math.max(...finite);
    if (mn === mx || !isFinite(mn) || !isFinite(mx)) return arr.map(() => 0.5);
    return arr.map(v => {
      if (!isFinite(v)) return 0.5;
      const normalized = (v - mn) / (mx - mn);
      return isFinite(normalized) ? normalized : 0.5;
    });
  };
  const diff = (arr) => arr.map((v,i) => i ? v - arr[i-1] : 0);
  \<close>
  Both are the same text in both files, as are the series \<^verbatim>\<open>xs, ys, zs\<close>,
  \<^verbatim>\<open>dxs, dys, dzs\<close>, \<^verbatim>\<open>rawSpd\<close> and \<^verbatim>\<open>spd\<close>, here functions of the trajectory \<open>t\<close> they
  are computed from.
\<close>

definition norm_arr :: "number list \<Rightarrow> number list" where
  "norm_arr arr =
     (let finite = filter isFinite arr in
      if length finite = 0 then map (\<lambda>_. Fin 0.5) arr
      else
        let mn = Math_min finite;
            mx = Math_max finite
        in if strict_eq mn mx \<or> \<not> isFinite mn \<or> \<not> isFinite mx then map (\<lambda>_. Fin 0.5) arr
           else map (\<lambda>v. if \<not> isFinite v then Fin 0.5
                           else let normalized = (v - mn) / (mx - mn)
                                in if isFinite normalized then normalized else Fin 0.5) arr)"

definition diff :: "number list \<Rightarrow> number list" where
  "diff arr =
     map (\<lambda>i. if i \<noteq> 0 then arr ! i - ToNumber (elem arr (i - 1)) else Fin 0)
       [0..<length arr]"

definition xs :: "point list \<Rightarrow> number list" where
  "xs t = norm_arr (map px t)"

definition ys :: "point list \<Rightarrow> number list" where
  "ys t = norm_arr (map py t)"

definition zs :: "point list \<Rightarrow> number list" where
  "zs t = norm_arr (map pz t)"

definition dxs :: "point list \<Rightarrow> number list" where
  "dxs t = diff (map px t)"

definition dys :: "point list \<Rightarrow> number list" where
  "dys t = diff (map py t)"

definition dzs :: "point list \<Rightarrow> number list" where
  "dzs t = diff (map pz t)"

definition rawSpd :: "point list \<Rightarrow> number list" where
  "rawSpd t =
     map (\<lambda>i. Math_sqrt (Math_pow (or_else (elem (dxs t) i) (Fin 0)) 2 +
                          Math_pow (or_else (elem (dys t) i) (Fin 0)) 2 +
                          Math_pow (or_else (elem (dzs t) i) (Fin 0)) 2))
       [0..<length t]"

definition spd :: "point list \<Rightarrow> number list" where
  "spd t = norm_arr (rawSpd t)"

subsection \<open>Normalisation over an arbitrary arithmetic\<close>

text \<open>
  With finite values as reals, the last fallback of \<^verbatim>\<open>norm\<close>
  (\<^verbatim>\<open>isFinite(normalized) ? normalized : 0.5\<close>) is never taken: the difference and the
  quotient of finite reals are finite.  In floating point they can overflow.  Here is
  \<^verbatim>\<open>norm\<close> again, from the same source text, with the subtraction and the division of
  the scaling step as parameters \<open>sub\<close> and \<open>dv\<close>; \<open>norm_arr\<close> is its instance at the exact
  operations.
\<close>

definition norm_with ::
  "(number \<Rightarrow> number \<Rightarrow> number) \<Rightarrow> (number \<Rightarrow> number \<Rightarrow> number) \<Rightarrow> number list \<Rightarrow> number list" where
  "norm_with sub dv arr =
     (let finite = filter isFinite arr in
      if length finite = 0 then map (\<lambda>_. Fin 0.5) arr
      else
        let mn = Math_min finite;
            mx = Math_max finite
        in if strict_eq mn mx \<or> \<not> isFinite mn \<or> \<not> isFinite mx then map (\<lambda>_. Fin 0.5) arr
           else map (\<lambda>v. if \<not> isFinite v then Fin 0.5
                           else let normalized = dv (sub v mn) (sub mx mn)
                                in if isFinite normalized then normalized else Fin 0.5) arr)"

text \<open>
  Scaling a value \<open>v\<close> over the finite elements of an array, from its statement:
  \<open>(v - min) / (max - min)\<close>, in the given arithmetic.
\<close>

definition scaled_with ::
  "(number \<Rightarrow> number \<Rightarrow> number) \<Rightarrow> (number \<Rightarrow> number \<Rightarrow> number) \<Rightarrow> number list \<Rightarrow> number \<Rightarrow> number" where
  "scaled_with sub dv arr v =
     dv (sub v (Math_min (filter isFinite arr)))
        (sub (Math_max (filter isFinite arr)) (Math_min (filter isFinite arr)))"

text \<open>
  What the range of \<^verbatim>\<open>norm\<close> needs of the arithmetic, and what a correctly rounded
  floating-point subtraction and division provide: a difference \<open>a - b\<close> with \<open>b \<le> a\<close> is
  not negative, subtraction is monotone in its first operand, and a finite quotient
  \<open>x / y\<close> with \<open>0 \<le> x \<le> y\<close> lies in \<open>[0, 1]\<close>.
\<close>

definition order_preserving ::
  "(number \<Rightarrow> number \<Rightarrow> number) \<Rightarrow> (number \<Rightarrow> number \<Rightarrow> number) \<Rightarrow> bool" where
  "order_preserving sub dv \<longleftrightarrow>
     (\<forall>a b. b \<le> a \<longrightarrow> Fin 0 \<le> sub (Fin a) (Fin b)) \<and>
     (\<forall>a a' b. a \<le> a' \<longrightarrow> sub (Fin a) (Fin b) \<le> sub (Fin a') (Fin b)) \<and>
     (\<forall>x y. Fin 0 \<le> x \<and> x \<le> y \<and> isFinite (dv x y) \<longrightarrow> Fin 0 \<le> dv x y \<and> dv x y \<le> Fin 1)"

text \<open>
  An arithmetic with the overflow of IEEE double precision and no rounding: a result
  of magnitude \<open>2^1024 - 2^970\<close> or more (the values that round-to-nearest takes to an
  infinity) becomes that infinity.
\<close>

fun overflow :: "number \<Rightarrow> number" where
  "overflow (Fin r) =
     (if 2 ^ 1024 - 2 ^ 970 \<le> r then PInf
      else if r \<le> - (2 ^ 1024 - 2 ^ 970) then NInf
      else Fin r)"
| "overflow v = v"

definition sub_overflow :: "number \<Rightarrow> number \<Rightarrow> number" where
  "sub_overflow a b = overflow (a - b)"

definition div_overflow :: "number \<Rightarrow> number \<Rightarrow> number" where
  "div_overflow a b = overflow (a / b)"

subsection \<open>Operations that can raise\<close>

text \<open>
  The functions above take an array where the source expects one.  JavaScript checks
  nothing at the call: \<^verbatim>\<open>arr.filter\<close> and \<^verbatim>\<open>arr.map\<close> raise a \<^verbatim>\<open>TypeError\<close> when \<^verbatim>\<open>arr\<close> is
  \<^verbatim>\<open>undefined\<close> (no property can be read) or a number (the property is \<^verbatim>\<open>undefined\<close>,
  which is not callable), and a spread call \<^verbatim>\<open>Math.min(...finite)\<close> raises a \<^verbatim>\<open>RangeError\<close>
  when \<^verbatim>\<open>finite\<close> has more elements than the engine accepts as arguments.  That bound
  depends on the engine: it is the parameter \<open>limit\<close>.  Below, the same source text over
  any value, with the error as a result.
\<close>

datatype error = TypeError | RangeError

definition js_filter :: "jsval \<Rightarrow> (number \<Rightarrow> bool) \<Rightarrow> error + number list" where
  "js_filter v P = (case v of Arr a \<Rightarrow> Inr (filter P a) | _ \<Rightarrow> Inl TypeError)"

definition js_map :: "jsval \<Rightarrow> (number \<Rightarrow> 'b) \<Rightarrow> error + 'b list" where
  "js_map v f = (case v of Arr a \<Rightarrow> Inr (map f a) | _ \<Rightarrow> Inl TypeError)"

text \<open>\<^verbatim>\<open>arr.map((v, i) => f(v, i))\<close>.\<close>

definition js_map_index :: "jsval \<Rightarrow> (number \<Rightarrow> nat \<Rightarrow> 'b) \<Rightarrow> error + 'b list" where
  "js_map_index v f =
     (case v of Arr a \<Rightarrow> Inr (map (\<lambda>i. f (a ! i) i) [0..<length a]) | _ \<Rightarrow> Inl TypeError)"

text \<open>\<^verbatim>\<open>arr[i]\<close> inside a callback of \<^verbatim>\<open>arr.map\<close>, where \<^verbatim>\<open>arr\<close> is an array.\<close>

definition js_elem :: "jsval \<Rightarrow> nat \<Rightarrow> number option" where
  "js_elem v i = (case v of Arr a \<Rightarrow> elem a i | _ \<Rightarrow> None)"

text \<open>The arguments of a spread call \<^verbatim>\<open>f(...args)\<close>.\<close>

definition spread :: "nat \<Rightarrow> number list \<Rightarrow> error + number list" where
  "spread limit args = (if length args \<le> limit then Inr args else Inl RangeError)"

definition norm_js :: "nat \<Rightarrow> jsval \<Rightarrow> error + number list" where
  "norm_js limit arr =
     (case js_filter arr isFinite of
        Inl e \<Rightarrow> Inl e
      | Inr finites \<Rightarrow>
          if length finites = 0 then js_map arr (\<lambda>_. Fin 0.5)
          else
            (case spread limit finites of
               Inl e \<Rightarrow> Inl e
             | Inr args \<Rightarrow>
                 (case spread limit finites of
                    Inl e \<Rightarrow> Inl e
                  | Inr args' \<Rightarrow>
                      let mn = Math_min args;
                          mx = Math_max args'
                      in if strict_eq mn mx \<or> \<not> isFinite mn \<or> \<not> isFinite mx
                         then js_map arr (\<lambda>_. Fin 0.5)
                         else js_map arr
                                (\<lambda>v. if \<not> isFinite v then Fin 0.5
                                     else let normalized = (v - mn) / (mx - mn)
                                          in if isFinite normalized then normalized
                                             else Fin 0.5))))"

definition diff_js :: "jsval \<Rightarrow> error + number list" where
  "diff_js arr =
     js_map_index arr (\<lambda>v i. if i \<noteq> 0 then v - ToNumber (js_elem arr (i - 1)) else Fin 0)"

text \<open>
  \<^verbatim>\<open>safeArr\<close> tests \<^verbatim>\<open>Array.isArray(arr)\<close> before it maps, and maps the one-element array
  \<^verbatim>\<open>[arr]\<close> otherwise; \<^verbatim>\<open>clampArr\<close> maps the array that \<^verbatim>\<open>safeArr\<close> returns.
\<close>

definition safeArr_js :: "jsval \<Rightarrow> number option \<Rightarrow> error + number list" where
  "safeArr_js arr def =
     (case arr of
        Arr a \<Rightarrow> js_map arr (\<lambda>v. safeNum (Num v) def)
      | _ \<Rightarrow> Inr (map (\<lambda>v. safeNum v def) [arr]))"

definition clampArr_js :: "jsval \<Rightarrow> number \<Rightarrow> number \<Rightarrow> error + number list" where
  "clampArr_js arr lo hi =
     (case safeArr_js arr None of
        Inl e \<Rightarrow> Inl e
      | Inr s \<Rightarrow> js_map (Arr s) (\<lambda>v. Math_max [lo, Math_min [hi, v]]))"

section \<open>The first script: musical mapping and safe arrays\<close>

text \<open>
  \<^verbatim>\<open>src/lorenz-funky.js\<close>, lines 44 and 78 to 160.  The percussion series (\<^verbatim>\<open>kicks\<close>,
  \<^verbatim>\<open>snares\<close>, \<^verbatim>\<open>hats\<close>) are arrays of strings drawn with \<^verbatim>\<open>Math.random\<close>; they are no
  numeric control series and are not part of the model.
\<close>

definition pts :: "point list" where
  "pts = lorenz (Some 4096) (Some (Fin 0.01)) None None None"

definition scale :: "number list" where
  "scale = [Fin 0, Fin 3, Fin 5, Fin 7, Fin 10]"

definition octaves :: "number list" where
  "octaves = [Fin 0, Fin 12, Fin 24, Fin 36]"

definition scaleDegree :: "point list \<Rightarrow> number list" where
  "scaleDegree t = map (\<lambda>v. Math_floor (v * Fin (real (length scale)))) (xs t)"

definition octave :: "point list \<Rightarrow> number list" where
  "octave t = map (\<lambda>v. Math_floor (v * Fin (real (length octaves)))) (ys t)"

definition notes_funky :: "point list \<Rightarrow> number list" where
  "notes_funky t =
     map (\<lambda>i. let deg = scaleDegree t ! i;
                  baseNote = Fin 48;
                  note = baseNote + ToNumber (key octaves (elem (octave t) i))
                           + ToNumber (key scale (Some deg))
              in note)
       [0..<length (scaleDegree t)]"

definition cut_funky :: "point list \<Rightarrow> number list" where
  "cut_funky t = map (\<lambda>v. Fin 300 + v * Fin 8000) (zs t)"

definition pan :: "point list \<Rightarrow> number list" where
  "pan t =
     map (\<lambda>i. let x = xs t ! i;
                  angle = Math_atan2 (ToNumber (elem (ys t) i) - Fin 0.5) (x - Fin 0.5)
              in Math_sin angle)
       [0..<length (xs t)]"

definition gain :: "point list \<Rightarrow> number list" where
  "gain t =
     map (\<lambda>i. let s = spd t ! i;
                  base = Fin 0.3 + Fin 0.5 * s;
                  modulation = Fin 0.1 * Math_sin (Fin (real i) * Fin 0.05)
              in base + modulation)
       [0..<length (spd t)]"

definition NOTES_SAFE :: "point list \<Rightarrow> number list" where
  "NOTES_SAFE t = clampArr (Arr (notes_funky t)) (Fin 36) (Fin 96)"

definition CUT_SAFE :: "point list \<Rightarrow> number list" where
  "CUT_SAFE t = clampArr (Arr (cut_funky t)) (Fin 100) (Fin 12000)"

definition PAN_SAFE :: "point list \<Rightarrow> number list" where
  "PAN_SAFE t = clampArr (Arr (pan t)) (Fin (- 1)) (Fin 1)"

definition GAIN_SAFE :: "point list \<Rightarrow> number list" where
  "GAIN_SAFE t = clampArr (Arr (gain t)) (Fin 0.1) (Fin 0.9)"

definition padNotes :: "point list \<Rightarrow> number list" where
  "padNotes t = filter_index (\<lambda>i. i mod 16 = 0) (notes_funky t)"

definition padCut :: "point list \<Rightarrow> number list" where
  "padCut t = filter_index (\<lambda>i. i mod 16 = 0) (cut_funky t)"

definition PAD_NOTES_SAFE :: "point list \<Rightarrow> number list" where
  "PAD_NOTES_SAFE t = clampArr (Arr (padNotes t)) (Fin 36) (Fin 84)"

definition PAD_CUT_SAFE :: "point list \<Rightarrow> number list" where
  "PAD_CUT_SAFE t = clampArr (Arr (padCut t)) (Fin 200) (Fin 3000)"

section \<open>The second script: musical mapping and safe arrays\<close>

text \<open>
  \<^verbatim>\<open>src/unnamed/part_000\<close>, lines 9 to 22, 62 and 96 to 167.
  \<^verbatim>\<open>
  const ensureFinite = (arr, defaultVal = 0.5) => {
    if (!Array.isArray(arr)) return [defaultVal];
    return arr.map(v => {
      if (Array.isArray(v)) {
        return v.map(x => (isFinite(x) ? x : defaultVal));
      }
      return (isFinite(v) ? v : defaultVal);
    });
  };
  const clamp = (val, min, max) => {
    const v = isFinite(val) ? val : (min + max) / 2;
    return Math.max(min, Math.min(max, v));
  };
  \<close>
  The argument of \<^verbatim>\<open>ensureFinite\<close> is an array whose elements may be arrays themselves,
  or \<open>None\<close> for a value that is no array.  The script never calls it.
\<close>

definition ensureFinite :: "jsval list option \<Rightarrow> number option \<Rightarrow> jsval list" where
  "ensureFinite arr defaultVal' =
     (let defaultVal = param defaultVal' (Fin 0.5) in
      case arr of
        None \<Rightarrow> [Num defaultVal]
      | Some a \<Rightarrow>
          map (\<lambda>v. case v of
                      Arr w \<Rightarrow> Arr (map (\<lambda>x. if isFinite x then x else defaultVal) w)
                    | _ \<Rightarrow> (if isFinite (Number v) then v else Num defaultVal)) a)"

definition clamp :: "number \<Rightarrow> number \<Rightarrow> number \<Rightarrow> number" where
  "clamp val min' max' =
     (let v = (if isFinite val then val else (min' + max') / Fin 2)
      in Math_max [min', Math_min [max', v]])"

definition pts_part000 :: "point list" where
  "pts_part000 = lorenz_part000 (Some 1536) (Some (Fin 0.01)) None None None"

definition midiBase :: number where
  "midiBase = Fin 60"

definition span_part000 :: number where
  "span_part000 = Fin 24"

definition notes_part000 :: "point list \<Rightarrow> number list" where
  "notes_part000 t =
     map (\<lambda>v. clamp (Math_round (midiBase + v * span_part000)) (Fin 36) (Fin 96)) (xs t)"

definition cut_part000 :: "point list \<Rightarrow> number list" where
  "cut_part000 t = map (\<lambda>v. clamp (Fin 200 + v * Fin 5000) (Fin 200) (Fin 8000)) (ys t)"

definition pan_part000 :: "point list \<Rightarrow> number list" where
  "pan_part000 t = map (\<lambda>v. clamp (v * Fin 2 - Fin 1) (Fin (- 1)) (Fin 1)) (zs t)"

definition gain_part000 :: "point list \<Rightarrow> number list" where
  "gain_part000 t = map (\<lambda>v. clamp (Fin 0.2 + Fin 0.6 * v) (Fin 0.1) (Fin 1.0)) (spd t)"

definition NOTES_SAFE_part000 :: "point list \<Rightarrow> number list" where
  "NOTES_SAFE_part000 t = clampArr (Arr (notes_part000 t)) (Fin 36) (Fin 96)"

definition CUT_SAFE_part000 :: "point list \<Rightarrow> number list" where
  "CUT_SAFE_part000 t =
     clampArr (Arr (map (\<lambda>v. Fin 200 + v * Fin 5000) (ys t))) (Fin 20) (Fin 12000)"

definition PAN_SAFE_part000 :: "point list \<Rightarrow> number list" where
  "PAN_SAFE_part000 t = clampArr (Arr (map (\<lambda>v. v * Fin 2 - Fin 1) (zs t))) (Fin (- 1)) (Fin 1)"

definition SPD_SAFE :: "point list \<Rightarrow> number list" where
  "SPD_SAFE t = safeArr (Arr (spd t)) (Some (Fin 0.0))"

definition GAIN_SAFE_part000 :: "point list \<Rightarrow> number list" where
  "GAIN_SAFE_part000 t =
     clampArr (Arr (map (\<lambda>v. Fin 0.2 + Fin 0.6 * v) (SPD_SAFE t))) (Fin 0.0) (Fin 1.0)"

definition roots :: "point list \<Rightarrow> number list" where
  "roots t =
     map (\<lambda>n. clamp n (Fin 36) (Fin 84)) (filter_index (\<lambda>i. i mod 8 = 0) (notes_part000 t))"

definition thirds :: "point list \<Rightarrow> number list" where
  "thirds t = map (\<lambda>r. clamp (r + Fin 4) (Fin 36) (Fin 96)) (roots t)"

definition fifths :: "point list \<Rightarrow> number list" where
  "fifths t = map (\<lambda>r. clamp (r + Fin 7) (Fin 36) (Fin 96)) (roots t)"

definition ROOTS_SAFE :: "point list \<Rightarrow> number list" where
  "ROOTS_SAFE t = clampArr (Arr (roots t)) (Fin 36) (Fin 96)"

definition THIRDS_SAFE :: "point list \<Rightarrow> number list" where
  "THIRDS_SAFE t = clampArr (Arr (thirds t)) (Fin 36) (Fin 96)"

definition FIFTHS_SAFE :: "point list \<Rightarrow> number list" where
  "FIFTHS_SAFE t = clampArr (Arr (fifths t)) (Fin 36) (Fin 96)"

section \<open>A sample trajectory\<close>

text \<open>
  Three states on which the two scripts' mappings are evaluated below: the \<open>x\<close> axis
  normalises to \<open>0, 1, 1/2\<close>, the \<open>y\<close> axis to \<open>1, 0, 1/2\<close>, the \<open>z\<close> axis is constant.
\<close>

definition sample :: "point list" where
  "sample =
     [\<lparr>px = Fin 0, py = Fin 5, pz = Fin 0\<rparr>,
      \<lparr>px = Fin 1, py = Fin 3, pz = Fin 0\<rparr>,
      \<lparr>px = Fin (1 / 2), py = Fin 4, pz = Fin 0\<rparr>]"

section \<open>Facts about numbers\<close>

lemma isFinite_iff: "isFinite n \<longleftrightarrow> (\<exists>a. n = Fin a)"
  by (cases n) simp_all

lemma Math_min_pair: "Math_min [a, b] = min2 (min2 PInf a) b"
  by (simp add: Math_min_def)

lemma Math_max_pair: "Math_max [a, b] = max2 (max2 NInf a) b"
  by (simp add: Math_max_def)

lemma clamp_Fin:
  "Math_max [Fin lo, Math_min [Fin hi, Fin r]] = Fin (max lo (min hi r))"
  by (simp add: Math_min_pair Math_max_pair min2_def max2_def max_def min_def)

lemma safeNum_None_finite: "isFinite (safeNum v None)"
  by (simp add: safeNum_def Let_def)

lemma safeArr_None_finite: "v \<in> set (safeArr arr None) \<Longrightarrow> isFinite v"
  by (auto simp: safeArr_def safeNum_None_finite)

lemma clampArr_elem:
  assumes "lo \<le> hi" and "v \<in> set (clampArr arr (Fin lo) (Fin hi))"
  shows "\<exists>r. v = Fin r \<and> lo \<le> r \<and> r \<le> hi"
proof -
  from assms(2) obtain w where w: "w \<in> set (safeArr arr None)"
    and v: "v = Math_max [Fin lo, Math_min [Fin hi, w]]"
    by (auto simp: clampArr_def)
  from w obtain a where "w = Fin a"
    using safeArr_None_finite isFinite_iff by blast
  with v have "v = Fin (max lo (min hi a))"
    by (simp add: clamp_Fin)
  with assms(1) show ?thesis by auto
qed

subsection \<open>The integrator loop\<close>

lemma half_times: "Fin (1 / 2) * d = d / Fin 2"
  by (cases d) simp_all

lemma lorenz_update_rk4:
  "lorenz_update dt sigma rho beta p = rk4 (lorenz_field sigma rho beta) dt p"
  by (simp add: lorenz_update_def rk4_def lorenz_field_def vadd_def smul_def
      dx_def dy_def dz_def Let_def half_times)

lemma lorenz_update_part000_rk4:
  "lorenz_update_part000 dt sigma rho beta p = rk4 (lorenz_field sigma rho beta) dt p"
  by (simp add: lorenz_update_part000_def rk4_def lorenz_field_def vadd_def smul_def
      dx_part000_def dy_part000_def dz_part000_def Let_def half_times)

lemma upt_Suc_shift: "[0..<Suc m] = 0 # map Suc [0..<m]"
  by (simp add: upt_conv_Cons map_Suc_upt del: upt_Suc)

lemma lorenz_loop_trace:
  "lorenz_loop i steps dt sigma rho beta p acc =
     acc @ map (\<lambda>k. (rk4 (lorenz_field sigma rho beta) dt ^^ Suc k) p) [0..<steps - i]"
proof (induction i steps dt sigma rho beta p acc rule: lorenz_loop.induct)
  case (1 i steps dt sigma rho beta p acc)
  show ?case
  proof (cases "i < steps")
    case False
    then show ?thesis by (simp add: lorenz_loop.simps)
  next
    case True
    then have m: "steps - i = Suc (steps - Suc i)" by simp
    from True "1.IH" [OF True refl] show ?thesis
      unfolding m upt_Suc_shift
      by (subst lorenz_loop.simps)
        (simp add: lorenz_update_rk4 funpow_swap1 Let_def del: upt_Suc)
  qed
qed

lemma lorenz_loop_part000_trace:
  "lorenz_loop_part000 i steps dt sigma rho beta p acc =
     acc @ map (\<lambda>k. (rk4 (lorenz_field sigma rho beta) dt ^^ Suc k) p) [0..<steps - i]"
proof (induction i steps dt sigma rho beta p acc rule: lorenz_loop_part000.induct)
  case (1 i steps dt sigma rho beta p acc)
  show ?case
  proof (cases "i < steps")
    case False
    then show ?thesis by (simp add: lorenz_loop_part000.simps)
  next
    case True
    then have m: "steps - i = Suc (steps - Suc i)" by simp
    from True "1.IH" [OF True refl] show ?thesis
      unfolding m upt_Suc_shift
      by (subst lorenz_loop_part000.simps)
        (simp add: lorenz_update_part000_rk4 funpow_swap1 Let_def del: upt_Suc)
  qed
qed

lemma lorenz_trace:
  "lorenz steps dt sigma rho beta =
     map (\<lambda>k. (rk4 (lorenz_field (param sigma (Fin 10)) (param rho (Fin 28))
                   (param beta (Fin 8 / Fin 3))) (param dt (Fin 0.01)) ^^ Suc k) initial)
       [0..<param steps 4096]"
  by (simp add: lorenz_def lorenz_loop_trace initial_def del: upt_Suc funpow.simps)

lemma lorenz_part000_trace:
  "lorenz_part000 steps dt sigma rho beta =
     map (\<lambda>k. (rk4 (lorenz_field (param sigma (Fin 10)) (param rho (Fin 28))
                   (param beta (Fin 8 / Fin 3))) (param dt (Fin 0.01)) ^^ Suc k) initial)
       [0..<param steps 1536]"
  by (simp add: lorenz_part000_def lorenz_loop_part000_trace initial_def del: upt_Suc funpow.simps)

lemma trace_first:
  "1 \<le> n \<Longrightarrow> map (\<lambda>k. ((f :: 'a \<Rightarrow> 'a) ^^ Suc k) s) [0..<n] ! 0 = f s"
  by (simp del: upt_Suc)

lemma trace_step:
  "1 \<le> i \<Longrightarrow> i < n \<Longrightarrow>
     map (\<lambda>k. ((f :: 'a \<Rightarrow> 'a) ^^ Suc k) s) [0..<n] ! i = f (map (\<lambda>k. (f ^^ Suc k) s) [0..<n] ! (i - 1))"
  by (cases i) (simp_all del: upt_Suc)

subsection \<open>Normalisation\<close>

lemma all_finite_map: "(\<forall>v\<in>set fs. isFinite v) \<Longrightarrow> \<exists>rs. fs = map Fin rs"
proof (induction fs)
  case Nil
  then show ?case by simp
next
  case (Cons a fs)
  then obtain rs where "fs = map Fin rs" by auto
  moreover from Cons.prems obtain r where "a = Fin r" by (auto simp: isFinite_iff)
  ultimately have "a # fs = map Fin (r # rs)" by simp
  then show ?case by (rule exI)
qed

lemma foldl_min2_Fin:
  "foldl min2 (Fin a) (map Fin rs) = Fin (Min (insert a (set rs)))"
proof (induction rs arbitrary: a)
  case Nil
  then show ?case by simp
next
  case (Cons r rs)
  have "min2 (Fin a) (Fin r) = Fin (min a r)"
    by (simp add: min2_def min_def)
  moreover have "Min (insert (min a r) (set rs)) = Min (insert a (insert r (set rs)))"
    by (cases "set rs = {}") (simp_all add: min.assoc)
  ultimately show ?case using Cons.IH [of "min a r"] by simp
qed

lemma foldl_max2_Fin:
  "foldl max2 (Fin a) (map Fin rs) = Fin (Max (insert a (set rs)))"
proof (induction rs arbitrary: a)
  case Nil
  then show ?case by simp
next
  case (Cons r rs)
  have "max2 (Fin a) (Fin r) = Fin (max a r)"
    by (simp add: max2_def max_def)
  moreover have "Max (insert (max a r) (set rs)) = Max (insert a (insert r (set rs)))"
    by (cases "set rs = {}") (simp_all add: max.assoc)
  ultimately show ?case using Cons.IH [of "max a r"] by simp
qed

lemma Math_min_Fin: "rs \<noteq> [] \<Longrightarrow> Math_min (map Fin rs) = Fin (Min (set rs))"
  by (cases rs) (simp_all add: Math_min_def min2_def foldl_min2_Fin)

lemma Math_max_Fin: "rs \<noteq> [] \<Longrightarrow> Math_max (map Fin rs) = Fin (Max (set rs))"
  by (cases rs) (simp_all add: Math_max_def max2_def foldl_max2_Fin)

lemma filter_isFinite_map: "\<exists>rs. filter isFinite arr = map Fin rs"
  by (rule all_finite_map) simp

lemma norm_arr_nth:
  assumes "i < length arr"
  shows "norm_arr arr ! i =
     (if isFinite (arr ! i) \<and> Math_min (filter isFinite arr) \<noteq> Math_max (filter isFinite arr)
      then (arr ! i - Math_min (filter isFinite arr))
             / (Math_max (filter isFinite arr) - Math_min (filter isFinite arr))
      else Fin 0.5)"
proof -
  obtain rs where rs: "filter isFinite arr = map Fin rs"
    using filter_isFinite_map by blast
  show ?thesis
  proof (cases "rs = []")
    case True
    with rs have e: "filter isFinite arr = []" by simp
    then have "\<not> isFinite (arr ! i)"
      using assms by (simp add: filter_empty_conv)
    with e assms show ?thesis by (simp add: norm_arr_def)
  next
    case False
    let ?m = "Min (set rs)" and ?M = "Max (set rs)"
    from False have mn: "Math_min (filter isFinite arr) = Fin ?m"
      and mx: "Math_max (filter isFinite arr) = Fin ?M"
      by (simp_all add: rs Math_min_Fin Math_max_Fin)
    from False rs have ne: "filter isFinite arr \<noteq> []" by simp
    show ?thesis
    proof (cases "?m = ?M")
      case True
      with ne assms show ?thesis
        by (simp add: norm_arr_def mn mx strict_eq_def Let_def)
    next
      case ne2: False
      show ?thesis
      proof (cases "arr ! i")
        case (Fin r)
        with ne ne2 assms show ?thesis
          by (simp add: norm_arr_def mn mx strict_eq_def Let_def)
      qed (use ne ne2 assms in \<open>simp_all add: norm_arr_def mn mx strict_eq_def Let_def\<close>)
    qed
  qed
qed

lemma length_norm_arr: "length (norm_arr arr) = length arr"
  by (simp add: norm_arr_def Let_def)

lemma norm_arr_range:
  assumes "i < length arr"
  shows "\<exists>r. norm_arr arr ! i = Fin r \<and> 0 \<le> r \<and> r \<le> 1"
proof -
  obtain rs where rs: "filter isFinite arr = map Fin rs"
    using filter_isFinite_map by blast
  show ?thesis
  proof (cases "isFinite (arr ! i) \<and> Math_min (filter isFinite arr) \<noteq> Math_max (filter isFinite arr)")
    case False
    then have "norm_arr arr ! i = Fin (1 / 2)" using norm_arr_nth [OF assms] by auto
    then show ?thesis by (intro exI [of _ "1 / 2"]) simp
  next
    case True
    then obtain r where r: "arr ! i = Fin r" by (auto simp: isFinite_iff)
    with assms have "Fin r \<in> set (filter isFinite arr)"
      by (simp add: nth_mem [of i arr, simplified r])
    then have rin: "r \<in> set rs" by (auto simp: rs)
    then have ne: "rs \<noteq> []" by auto
    let ?m = "Min (set rs)" and ?M = "Max (set rs)"
    from ne have mn: "Math_min (filter isFinite arr) = Fin ?m"
      and mx: "Math_max (filter isFinite arr) = Fin ?M"
      by (simp_all add: rs Math_min_Fin Math_max_Fin)
    from rin have b: "?m \<le> r" "r \<le> ?M" by simp_all
    from True have "?m \<noteq> ?M" by (simp add: mn mx)
    with b have lt: "?m < ?M" by linarith
    have "norm_arr arr ! i = Fin ((r - ?m) / (?M - ?m))"
      using norm_arr_nth [OF assms] True lt by (simp add: mn mx r)
    moreover have "0 \<le> (r - ?m) / (?M - ?m)" using b lt by simp
    moreover have "(r - ?m) / (?M - ?m) \<le> 1" using b lt by (simp add: divide_le_eq)
    ultimately show ?thesis by blast
  qed
qed

subsection \<open>Differences, constant arrays, clamping and the note mapping\<close>

lemma rk4_default_first:
  "rk4 (lorenz_field (Fin 10) (Fin 28) (Fin (8 / 3))) (Fin (1 / 100)) initial =
     \<lparr>px = Fin (729048377573 / 720000000000),
      py = Fin (195942416091969055727 / 155520000000000000000),
      pz = Fin (76585121966515231279 / 77760000000000000000)\<rparr>"
  by (simp add: rk4_def lorenz_field_def vadd_def smul_def initial_def Let_def)

lemma diff_nth:
  "i < length arr \<Longrightarrow>
     diff arr ! i = (if i \<noteq> 0 then arr ! i - arr ! (i - 1) else Fin 0)"
  by (auto simp: diff_def elem_def simp del: upt_Suc)

lemma length_diff: "length (diff arr) = length arr"
  by (simp add: diff_def del: upt_Suc)

lemma Math_min_replicate: "0 < n \<Longrightarrow> Math_min (replicate n (Fin r)) = Fin r"
  using Math_min_Fin [of "replicate n r"] by simp

lemma Math_max_replicate: "0 < n \<Longrightarrow> Math_max (replicate n (Fin r)) = Fin r"
  using Math_max_Fin [of "replicate n r"] by simp

lemma norm_arr_replicate: "norm_arr (replicate n c) = replicate n (Fin 0.5)"
proof (cases "isFinite c")
  case False
  then show ?thesis by (simp add: norm_arr_def)
next
  case True
  then obtain r where c: "c = Fin r" by (auto simp: isFinite_iff)
  show ?thesis
  proof (cases "n = 0")
    case True
    then show ?thesis by (simp add: norm_arr_def)
  next
    case False
    then show ?thesis
      by (simp add: norm_arr_def c Math_min_replicate Math_max_replicate strict_eq_def)
  qed
qed

lemma clampArr_bounds:
  "lo \<le> hi \<Longrightarrow> \<forall>v\<in>set (clampArr arr (Fin lo) (Fin hi)). isFinite v \<and> Fin lo \<le> v \<and> v \<le> Fin hi"
proof
  fix v assume "lo \<le> hi" and "v \<in> set (clampArr arr (Fin lo) (Fin hi))"
  then obtain r where "v = Fin r" "lo \<le> r" "r \<le> hi"
    using clampArr_elem by blast
  then show "isFinite v \<and> Fin lo \<le> v \<and> v \<le> Fin hi" by simp
qed

lemma clampArr_finite: "v \<in> set (clampArr arr (Fin lo) (Fin hi)) \<Longrightarrow> isFinite v"
proof -
  assume "v \<in> set (clampArr arr (Fin lo) (Fin hi))"
  then obtain w where w: "w \<in> set (safeArr arr None)"
    and v: "v = Math_max [Fin lo, Math_min [Fin hi, w]]"
    by (auto simp: clampArr_def)
  from w obtain a where "w = Fin a"
    using safeArr_None_finite isFinite_iff by blast
  with v show ?thesis by (simp add: clamp_Fin)
qed

lemma clamp_finite: "isFinite (clamp val (Fin lo) (Fin hi))"
  by (cases val) (simp_all add: clamp_def clamp_Fin)

lemma norm_arr_finite: "v \<in> set (norm_arr arr) \<Longrightarrow> isFinite v"
proof -
  assume "v \<in> set (norm_arr arr)"
  then obtain i where "i < length arr" "v = norm_arr arr ! i"
    by (auto simp: in_set_conv_nth length_norm_arr)
  then show ?thesis using norm_arr_range [of i arr] by auto
qed

lemma add_NaN [simp]: "a + NaN = NaN" "NaN + a = NaN"
  by (cases a; simp)+

lemma length_series [simp]:
  "length (xs t) = length t" "length (ys t) = length t" "length (zs t) = length t"
  "length (scaleDegree t) = length t" "length (octave t) = length t"
  "length (notes_funky t) = length t"
  by (simp_all add: xs_def ys_def zs_def scaleDegree_def octave_def notes_funky_def
      length_norm_arr del: upt_Suc)

lemma notes_funky_nth:
  "i < length t \<Longrightarrow>
     notes_funky t ! i =
       Fin 48 + ToNumber (key octaves (Some (octave t ! i)))
         + ToNumber (key scale (Some (scaleDegree t ! i)))"
  by (simp add: notes_funky_def elem_def Let_def del: upt_Suc)

lemma scaleDegree_top: "i < length t \<Longrightarrow> xs t ! i = Fin 1 \<Longrightarrow> scaleDegree t ! i = Fin 5"
  by (simp add: scaleDegree_def scale_def)

lemma octave_top: "i < length t \<Longrightarrow> ys t ! i = Fin 1 \<Longrightarrow> octave t ! i = Fin 4"
  by (simp add: octave_def octaves_def)

lemma key_past_end: "key scale (Some (Fin 5)) = None" "key octaves (Some (Fin 4)) = None"
  by (simp_all add: scale_def octaves_def)

lemma NOTES_SAFE_nth:
  "i < length t \<Longrightarrow>
     NOTES_SAFE t ! i =
       Math_max [Fin 36, Math_min [Fin 96, safeNum (Num (notes_funky t ! i)) None]]"
  by (simp add: NOTES_SAFE_def clampArr_def safeArr_def)

lemma sanitize_NaN:
  "safeNum (Num NaN) None = Fin 0"
  "Math_max [Fin 36, Math_min [Fin 96, Fin 0]] = Fin 36"
  by (simp_all add: safeNum_def clamp_Fin)

subsection \<open>Substituted defaults\<close>

lemma or_else_cases:
  "or_else v (Fin 0) = PInf \<or> or_else v (Fin 0) = NInf \<or> (\<exists>r. or_else v (Fin 0) = Fin r)"
proof (cases v)
  case None
  then show ?thesis by simp
next
  case (Some n)
  then show ?thesis by (cases n) simp_all
qed

lemma square_cases:
  "u = PInf \<or> u = NInf \<or> (\<exists>r. u = Fin r) \<Longrightarrow>
     Math_pow u 2 = PInf \<or> (\<exists>r. Math_pow u 2 = Fin r \<and> 0 \<le> r)"
  by auto

lemma sum_cases:
  "a = PInf \<or> (\<exists>r. a = Fin r \<and> 0 \<le> r) \<Longrightarrow> b = PInf \<or> (\<exists>r. b = Fin r \<and> 0 \<le> r) \<Longrightarrow>
     a + b = PInf \<or> (\<exists>r. a + b = Fin r \<and> 0 \<le> r)"
  by auto

lemma sqrt_cases: "a = PInf \<or> (\<exists>r. a = Fin r \<and> 0 \<le> r) \<Longrightarrow> Math_sqrt a \<noteq> NaN"
  by auto

lemma rawSpd_not_NaN: "v \<in> set (rawSpd t) \<Longrightarrow> v \<noteq> NaN"
proof -
  assume "v \<in> set (rawSpd t)"
  then obtain i where
    v: "v = Math_sqrt (Math_pow (or_else (elem (dxs t) i) (Fin 0)) 2 +
                       Math_pow (or_else (elem (dys t) i) (Fin 0)) 2 +
                       Math_pow (or_else (elem (dzs t) i) (Fin 0)) 2)"
    by (auto simp: rawSpd_def simp del: upt_Suc)
  show ?thesis
    unfolding v
    by (intro sqrt_cases sum_cases square_cases or_else_cases)
qed

lemma series_finite:
  "v \<in> set (xs t) \<union> set (ys t) \<union> set (zs t) \<union> set (spd t) \<Longrightarrow> isFinite v"
  by (auto simp: xs_def ys_def zs_def spd_def dest: norm_arr_finite)

lemma safeNum_finite: "isFinite d \<Longrightarrow> isFinite (safeNum u (Some d))"
  by (simp add: safeNum_def Let_def)

lemma safeNum_default: "\<not> isFinite (Number u) \<Longrightarrow> safeNum u def = param def (Fin 0)"
  by (simp add: safeNum_def Let_def)

lemma norm_arr_attains_one:
  assumes "Fin a \<in> set arr" and "Fin b \<in> set arr" and "a \<noteq> b"
  shows "\<exists>i<length arr. norm_arr arr ! i = Fin 1"
proof -
  obtain rs where rs: "filter isFinite arr = map Fin rs"
    using filter_isFinite_map by blast
  from assms(1,2) have "Fin a \<in> set (filter isFinite arr)" "Fin b \<in> set (filter isFinite arr)"
    by simp_all
  then have ab: "a \<in> set rs" "b \<in> set rs" by (auto simp: rs)
  then have ne: "rs \<noteq> []" by auto
  let ?m = "Min (set rs)" and ?M = "Max (set rs)"
  from ne have mn: "Math_min (filter isFinite arr) = Fin ?m"
    and mx: "Math_max (filter isFinite arr) = Fin ?M"
    by (simp_all add: rs Math_min_Fin Math_max_Fin)
  have "?m \<le> a" "a \<le> ?M" "?m \<le> b" "b \<le> ?M" using ab by simp_all
  with assms(3) have lt: "?m < ?M" by linarith
  have "?M \<in> set rs" using ne by (simp add: Max_in)
  then have "Fin ?M \<in> set (filter isFinite arr)" by (simp add: rs del: set_filter)
  then have "Fin ?M \<in> set arr" by simp
  then obtain i where i: "i < length arr" "arr ! i = Fin ?M"
    by (auto simp: in_set_conv_nth)
  have "norm_arr arr ! i = Fin 1"
    using norm_arr_nth [OF i(1)] lt by (simp add: mn mx i(2))
  with i(1) show ?thesis by blast
qed

lemma notes_funky_NaN:
  assumes i: "i < length t" and top: "xs t ! i = Fin 1 \<or> ys t ! i = Fin 1"
  shows "notes_funky t ! i = NaN"
  using top
proof
  assume "xs t ! i = Fin 1"
  then show ?thesis
    by (simp add: notes_funky_nth [OF i] scaleDegree_top [OF i] key_past_end del: key.simps)
next
  assume "ys t ! i = Fin 1"
  then show ?thesis
    by (simp add: notes_funky_nth [OF i] octave_top [OF i] key_past_end del: key.simps)
qed

lemma NOTES_SAFE_of_NaN:
  "i < length t \<Longrightarrow> notes_funky t ! i = NaN \<Longrightarrow> NOTES_SAFE t ! i = Fin 36"
  by (simp add: NOTES_SAFE_nth sanitize_NaN)

lemma norm_arr_max_one:
  assumes i: "i < length arr" and fin: "isFinite (arr ! i)"
    and top: "arr ! i = Math_max (filter isFinite arr)"
    and ne: "Math_min (filter isFinite arr) \<noteq> Math_max (filter isFinite arr)"
  shows "norm_arr arr ! i = Fin 1"
proof -
  obtain rs where rs: "filter isFinite arr = map Fin rs"
    using filter_isFinite_map by blast
  from i fin have "arr ! i \<in> set (filter isFinite arr)" by simp
  then have nonempty: "rs \<noteq> []" by (auto simp: rs)
  let ?m = "Min (set rs)" and ?M = "Max (set rs)"
  from nonempty have mn: "Math_min (filter isFinite arr) = Fin ?m"
    and mx: "Math_max (filter isFinite arr) = Fin ?M"
    by (simp_all add: rs Math_min_Fin Math_max_Fin)
  from ne have "?m \<noteq> ?M" by (simp add: mn mx)
  then show ?thesis
    using norm_arr_nth [OF i] by (simp add: top mn mx)
qed

lemma sample_series:
  "xs sample = [Fin 0, Fin 1, Fin (1 / 2)]"
  "ys sample = [Fin 1, Fin 0, Fin (1 / 2)]"
  "zs sample = [Fin (1 / 2), Fin (1 / 2), Fin (1 / 2)]"
  by (simp_all add: sample_def xs_def ys_def zs_def norm_arr_def Math_min_def Math_max_def
      min2_def max2_def strict_eq_def)

lemma sample_first_script:
  "scaleDegree sample = [Fin 0, Fin 5, Fin 2]"
  "octave sample = [Fin 4, Fin 0, Fin 2]"
  "notes_funky sample = [NaN, NaN, Fin 77]"
  "NOTES_SAFE sample = [Fin 36, Fin 36, Fin 77]"
  "cut_funky sample = [Fin 4300, Fin 4300, Fin 4300]"
  "CUT_SAFE sample = [Fin 4300, Fin 4300, Fin 4300]"
  by (simp_all add: scaleDegree_def octave_def notes_funky_def NOTES_SAFE_def cut_funky_def
      CUT_SAFE_def sample_series scale_def octaves_def elem_def clampArr_def safeArr_def
      safeNum_def clamp_Fin Let_def upt_conv_Cons
      del: upt_Suc)

lemma sample_second_script:
  "notes_part000 sample = [Fin 60, Fin 84, Fin 72]"
  "NOTES_SAFE_part000 sample = [Fin 60, Fin 84, Fin 72]"
  "cut_part000 sample = [Fin 5200, Fin 200, Fin 2700]"
  "pan_part000 sample = [Fin 0, Fin 0, Fin 0]"
  "roots sample = [Fin 60]"
  "thirds sample = [Fin 64]"
  "fifths sample = [Fin 67]"
  by (simp_all add: notes_part000_def NOTES_SAFE_part000_def cut_part000_def pan_part000_def
      roots_def thirds_def fifths_def filter_index_def sample_series midiBase_def
      span_part000_def clamp_def clamp_Fin clampArr_def safeArr_def safeNum_def Let_def
      upt_conv_Cons del: upt_Suc)

lemma ensureFinite_finite:
  assumes "v \<in> set (ensureFinite nested None)"
  shows "case v of Num n \<Rightarrow> isFinite n | Arr w \<Rightarrow> list_all isFinite w | Undefined \<Rightarrow> False"
proof (cases nested)
  case None
  with assms show ?thesis by (simp add: ensureFinite_def Let_def)
next
  case (Some a)
  with assms obtain u where "u \<in> set a"
    and v: "v = (case u of
                  Arr w \<Rightarrow> Arr (map (\<lambda>x. if isFinite x then x else Fin (1 / 2)) w)
                | _ \<Rightarrow> (if isFinite (Number u) then u else Num (Fin (1 / 2))))"
    by (auto simp: ensureFinite_def Let_def)
  show ?thesis
  proof (cases u)
    case Undefined
    with v show ?thesis by simp
  next
    case (Num n)
    with v show ?thesis by simp
  next
    case (Arr w)
    with v show ?thesis by (auto simp: list_all_iff)
  qed
qed

subsection \<open>The trajectory of the first script\<close>

text \<open>
  With the constants of the call \<^verbatim>\<open>lorenz(4096, 0.01)\<close> the \<open>x\<close> coordinates of the first
  two states differ, so the normalised \<open>x\<close> axis reaches 1 at some index, and the note at
  that index is the substituted lower bound.
\<close>

lemma px_lorenz_field: "px (lorenz_field sigma rho beta v) = sigma * (py v - px v)"
  by (simp add: lorenz_field_def)

lemma py_lorenz_field: "py (lorenz_field sigma rho beta v) = px v * (rho - pz v) - py v"
  by (simp add: lorenz_field_def)

lemma px_rk4:
  "px (rk4 f h s) =
     px s + (h / Fin 6) *
       (px (f s)
        + Fin 2 * px (f (vadd s (smul (h / Fin 2) (f s))))
        + Fin 2 * px (f (vadd s (smul (h / Fin 2) (f (vadd s (smul (h / Fin 2) (f s)))))))
        + px (f (vadd s (smul h (f (vadd s (smul (h / Fin 2) (f (vadd s (smul (h / Fin 2) (f s))))))))))) "
  by (simp add: rk4_def Let_def vadd_def smul_def)

lemma rk4_default_second_x:
  "px (rk4 (lorenz_field (Fin 10) (Fin 28) (Fin (8 / 3))) (Fin (1 / 100))
     \<lparr>px = Fin (729048377573 / 720000000000),
      py = Fin (195942416091969055727 / 155520000000000000000),
      pz = Fin (76585121966515231279 / 77760000000000000000)\<rparr>) =
   Fin (9816744085479841626116831524096116462620098184786288695326950046047675942870377112827207622937097 /
        9359765606561218560000000000000000000000000000000000000000000000000000000000000000000000000000000)"
proof -
  let ?F = "lorenz_field (Fin 10) (Fin 28) (Fin (8 / 3))"
  let ?h = "Fin (1 / 100)"
  let ?s = "\<lparr>px = Fin (729048377573 / 720000000000),
      py = Fin (195942416091969055727 / 155520000000000000000),
      pz = Fin (76585121966515231279 / 77760000000000000000)\<rparr>"
  let ?k1 = "\<lparr>px = Fin (38467966536201055727 / 15552000000000000000),
      py = Fin (1460968922813114327341732188294133 / 55987200000000000000000000000000),
      pz = Fin (- (151235367801834760878669825989429 / 111974400000000000000000000000000))\<rparr>"
  let ?k2 = "\<lparr>px = Fin (4092177833889266539068532188294133 /
        1119744000000000000000000000000000),
      py = Fin (1832345955933192134385459481221603755736952780741581909883 /
        69657034752000000000000000000000000000000000000000000000),
      pz = Fin (- (41212838987362266699681611082251638389562807751319850309 /
        34828517376000000000000000000000000000000000000000000000))\<rparr>"
  let ?p3 = "\<lparr>px = Fin (230855385194195186539068532188294133 /
        223948800000000000000000000000000000),
      py = Fin (19384773537092056001263370521221603755736952780741581909883 /
        13931406950400000000000000000000000000000000000000000000000),
      pz = Fin (6819245625914528223962124468917748361610437192248680149691 /
        6965703475200000000000000000000000000000000000000000000000)\<rparr>"
  have k1: "?F ?s = ?k1"
    by (simp add: lorenz_field_def)
  have k2: "?F (vadd ?s (smul (?h / Fin 2) ?k1)) = ?k2"
    by (simp add: lorenz_field_def vadd_def smul_def)
  have p3: "vadd ?s (smul (?h / Fin 2) ?k2) = ?p3"
    by (simp add: vadd_def smul_def)
  have k3x: "px (?F ?p3) =
      Fin (5023721734931561837040995270852202330072952780741581909883 /
            1393140695040000000000000000000000000000000000000000000000)"
    by (simp add: px_lorenz_field)
  have k3y: "py (?F ?p3) =
      Fin (41281106487987431274660247602049810156795218054433359339049476959675942870377112827207622937097 /
            1559960934426869760000000000000000000000000000000000000000000000000000000000000000000000000000)"
    by (simp add: py_lorenz_field)
  have k4x: "px (?F (vadd ?s (smul ?h (?F ?p3)))) =
      Fin (74241552756281616566624693189222281710910009615914657444949447007675942870377112827207622937097 /
            15599609344268697600000000000000000000000000000000000000000000000000000000000000000000000000000)"
    unfolding px_lorenz_field
    by (simp add: vadd_def smul_def k3x k3y)
  show ?thesis
    unfolding px_rk4 k1 k2 p3 k4x k3x by simp
qed

lemma length_pts: "length pts = 4096"
  by (simp add: pts_def lorenz_trace del: upt_Suc funpow.simps)

lemma pts_first_two:
  "px (pts ! 0) = Fin (729048377573 / 720000000000)"
  "px (pts ! 1) =
     Fin (9816744085479841626116831524096116462620098184786288695326950046047675942870377112827207622937097 /
        9359765606561218560000000000000000000000000000000000000000000000000000000000000000000000000000000)"
proof -
  let ?f = "rk4 (lorenz_field (Fin 10) (Fin 28) (Fin (8 / 3))) (Fin (1 / 100))"
  have t: "pts = map (\<lambda>k. (?f ^^ Suc k) initial) [0..<4096]"
    by (simp add: pts_def lorenz_trace del: upt_Suc funpow.simps)
  have 0: "pts ! 0 = ?f initial"
    unfolding t by (simp del: upt_Suc)
  have 1: "pts ! 1 = ?f (?f initial)"
    unfolding t by (simp del: upt_Suc)
  show "px (pts ! 0) = Fin (729048377573 / 720000000000)"
    by (simp add: 0 rk4_default_first)
  show "px (pts ! 1) =
     Fin (9816744085479841626116831524096116462620098184786288695326950046047675942870377112827207622937097 /
        9359765606561218560000000000000000000000000000000000000000000000000000000000000000000000000000000)"
    unfolding 1 rk4_default_first by (rule rk4_default_second_x)
qed

lemma clamped_note_exists:
  assumes "Fin a \<in> set (map px t)" and "Fin b \<in> set (map px t)" and "a \<noteq> b"
  shows "\<exists>i<length t. xs t ! i = Fin 1 \<and> notes_funky t ! i = NaN \<and> NOTES_SAFE t ! i = Fin 36"
proof -
  from norm_arr_attains_one [OF assms]
  obtain i where i: "i < length (map px t)" "norm_arr (map px t) ! i = Fin 1"
    by blast
  then have "i < length t" "xs t ! i = Fin 1" by (simp_all add: xs_def)
  then show ?thesis
    using notes_funky_NaN [of i t] NOTES_SAFE_of_NaN [of i t] by blast
qed

lemma pts_has_clamped_note:
  "\<exists>i<length pts. xs pts ! i = Fin 1 \<and> notes_funky pts ! i = NaN \<and> NOTES_SAFE pts ! i = Fin 36"
proof (rule clamped_note_exists)
  have "pts ! 0 \<in> set pts" "pts ! 1 \<in> set pts"
    by (rule nth_mem, simp add: length_pts)+
  then have m: "px (pts ! 0) \<in> set (map px pts)" "px (pts ! 1) \<in> set (map px pts)"
    by (simp_all only: set_map image_eqI [OF refl])
  from m(1) show "Fin (729048377573 / 720000000000) \<in> set (map px pts)"
    by (simp only: pts_first_two)
  from m(2) show "Fin (9816744085479841626116831524096116462620098184786288695326950046047675942870377112827207622937097 /
        9359765606561218560000000000000000000000000000000000000000000000000000000000000000000000000000000) \<in> set (map px pts)"
    by (simp only: pts_first_two)
  show "(729048377573 / 720000000000 :: real) \<noteq>
      9816744085479841626116831524096116462620098184786288695326950046047675942870377112827207622937097 /
        9359765606561218560000000000000000000000000000000000000000000000000000000000000000000000000000000"
    by simp
qed

subsection \<open>Normalisation over an arbitrary arithmetic\<close>

lemma norm_arr_with: "norm_arr arr = norm_with (-) (/) arr"
  by (simp add: norm_arr_def norm_with_def)

lemma length_norm_with: "length (norm_with sub dv arr) = length arr"
  by (simp add: norm_with_def Let_def)

lemma norm_with_nth:
  assumes "i < length arr"
  shows "norm_with sub dv arr ! i =
     (if isFinite (arr ! i) \<and> Math_min (filter isFinite arr) \<noteq> Math_max (filter isFinite arr)
         \<and> isFinite (scaled_with sub dv arr (arr ! i))
      then scaled_with sub dv arr (arr ! i)
      else Fin 0.5)"
proof -
  obtain rs where rs: "filter isFinite arr = map Fin rs"
    using filter_isFinite_map by blast
  show ?thesis
  proof (cases "rs = []")
    case True
    with rs have e: "filter isFinite arr = []" by simp
    then have "\<not> isFinite (arr ! i)"
      using assms by (simp add: filter_empty_conv)
    with e assms show ?thesis by (simp add: norm_with_def)
  next
    case False
    let ?m = "Min (set rs)" and ?M = "Max (set rs)"
    from False have mn: "Math_min (filter isFinite arr) = Fin ?m"
      and mx: "Math_max (filter isFinite arr) = Fin ?M"
      by (simp_all add: rs Math_min_Fin Math_max_Fin)
    from False rs have ne: "filter isFinite arr \<noteq> []" by simp
    with assms show ?thesis
      by (simp add: norm_with_def scaled_with_def mn mx strict_eq_def Let_def)
  qed
qed

lemma norm_with_range:
  assumes i: "i < length arr" and ok: "order_preserving sub dv"
  shows "Fin 0 \<le> norm_with sub dv arr ! i \<and> norm_with sub dv arr ! i \<le> Fin 1"
proof (cases "isFinite (arr ! i) \<and> Math_min (filter isFinite arr) \<noteq> Math_max (filter isFinite arr)
         \<and> isFinite (scaled_with sub dv arr (arr ! i))")
  case False
  then have "norm_with sub dv arr ! i = Fin (1 / 2)"
    using norm_with_nth [OF i, of sub dv] by auto
  then show ?thesis by simp
next
  case True
  obtain rs where rs: "filter isFinite arr = map Fin rs"
    using filter_isFinite_map by blast
  from True obtain r where r: "arr ! i = Fin r" by (auto simp: isFinite_iff)
  with i have "Fin r \<in> set (filter isFinite arr)"
    by (simp add: nth_mem [of i arr, simplified r])
  then have rin: "r \<in> set rs" by (auto simp: rs)
  then have ne: "rs \<noteq> []" by auto
  let ?m = "Min (set rs)" and ?M = "Max (set rs)"
  from ne have mn: "Math_min (filter isFinite arr) = Fin ?m"
    and mx: "Math_max (filter isFinite arr) = Fin ?M"
    by (simp_all add: rs Math_min_Fin Math_max_Fin)
  from rin have b: "?m \<le> r" "r \<le> ?M" by simp_all
  let ?x = "sub (Fin r) (Fin ?m)" and ?y = "sub (Fin ?M) (Fin ?m)"
  from ok b have "Fin 0 \<le> ?x" "?x \<le> ?y"
    by (simp_all add: order_preserving_def)
  moreover from True have "isFinite (dv ?x ?y)"
    by (simp add: scaled_with_def mn mx r)
  ultimately have "Fin 0 \<le> dv ?x ?y \<and> dv ?x ?y \<le> Fin 1"
    using ok unfolding order_preserving_def by blast
  moreover have "norm_with sub dv arr ! i = dv ?x ?y"
    using norm_with_nth [OF i, of sub dv] True by (simp add: scaled_with_def mn mx r)
  ultimately show ?thesis by simp
qed

lemma order_preserving_exact: "order_preserving (-) (/)"
  unfolding order_preserving_def
proof (intro conjI allI impI)
  fix x y :: number
  assume h: "Fin 0 \<le> x \<and> x \<le> y \<and> isFinite (x / y)"
  then show "Fin 0 \<le> x / y" "x / y \<le> Fin 1"
    by (cases x; cases y; auto simp: divide_le_eq split: if_splits)+
qed simp_all

lemma overflow_mono: "a \<le> b \<Longrightarrow> overflow (Fin a) \<le> overflow (Fin b)"
  by auto

lemma order_preserving_overflow: "order_preserving sub_overflow div_overflow"
  unfolding order_preserving_def
proof (intro conjI allI impI)
  fix a b :: real assume "b \<le> a"
  then show "Fin 0 \<le> sub_overflow (Fin a) (Fin b)"
    by (simp add: sub_overflow_def)
next
  fix a a' b :: real assume "a \<le> a'"
  then show "sub_overflow (Fin a) (Fin b) \<le> sub_overflow (Fin a') (Fin b)"
    unfolding sub_overflow_def minus_number.simps by (intro overflow_mono) simp
next
  fix x y :: number
  assume h: "Fin 0 \<le> x \<and> x \<le> y \<and> isFinite (div_overflow x y)"
  then show "Fin 0 \<le> div_overflow x y" "div_overflow x y \<le> Fin 1"
    by (cases x; cases y; auto simp: div_overflow_def divide_le_eq split: if_splits)+
qed

lemma norm_overflow_example:
  "norm_with sub_overflow div_overflow [Fin (2 ^ 1023), Fin (- (2 ^ 1023))] = [Fin 0.5, Fin 0]"
  by (simp add: norm_with_def Math_min_def Math_max_def min2_def max2_def strict_eq_def
      sub_overflow_def div_overflow_def)

subsection \<open>Operations that can raise\<close>

lemma norm_js_Arr:
  "norm_js limit (Arr a) =
     (if filter isFinite a \<noteq> [] \<and> limit < length (filter isFinite a) then Inl RangeError
      else Inr (norm_arr a))"
  by (simp add: norm_js_def js_filter_def js_map_def spread_def norm_arr_def Let_def)

lemma norm_js_not_array:
  "norm_js limit Undefined = Inl TypeError" "norm_js limit (Num n) = Inl TypeError"
  by (simp_all add: norm_js_def js_filter_def)

lemma diff_js_Arr: "diff_js (Arr a) = Inr (diff a)"
  by (simp add: diff_js_def js_map_index_def js_elem_def diff_def del: upt_Suc)

lemma diff_js_not_array:
  "diff_js Undefined = Inl TypeError" "diff_js (Num n) = Inl TypeError"
  by (simp_all add: diff_js_def js_map_index_def)

lemma safeArr_js_returns: "safeArr_js u def = Inr (safeArr u def)"
  by (cases u) (simp_all add: safeArr_js_def safeArr_def js_map_def)

lemma clampArr_js_returns: "clampArr_js u lo hi = Inr (clampArr u lo hi)"
  by (simp add: clampArr_js_def safeArr_js_returns clampArr_def js_map_def)

lemma safeNum_keeps: "isFinite n \<Longrightarrow> safeNum (Num n) def = n"
  by (simp add: safeNum_def)

lemma atan2_finite: "isFinite (Math_atan2 (Fin b) (Fin a))"
  by simp

lemma length_mappings:
  "length (cut_funky t) = length t" "length (pan t) = length t" "length (gain t) = length t"
  "length (notes_part000 t) = length t" "length (cut_part000 t) = length t"
  "length (pan_part000 t) = length t" "length (gain_part000 t) = length t"
  "length (spd t) = length t" "length (rawSpd t) = length t"
  by (simp_all add: cut_funky_def pan_def gain_def notes_part000_def cut_part000_def
      pan_part000_def gain_part000_def spd_def rawSpd_def length_norm_arr del: upt_Suc)

lemma series_nth_finite:
  "i < length t \<Longrightarrow> \<exists>r. xs t ! i = Fin r"
  "i < length t \<Longrightarrow> \<exists>r. ys t ! i = Fin r"
  "i < length t \<Longrightarrow> \<exists>r. zs t ! i = Fin r"
  "i < length t \<Longrightarrow> \<exists>r. spd t ! i = Fin r"
  using norm_arr_range [of i "map px t"] norm_arr_range [of i "map py t"]
    norm_arr_range [of i "map pz t"] norm_arr_range [of i "rawSpd t"]
  by (auto simp: xs_def ys_def zs_def spd_def length_mappings)

lemma pan_finite: "v \<in> set (pan t) \<Longrightarrow> isFinite v"
proof -
  assume "v \<in> set (pan t)"
  then obtain i where i: "i < length t"
    and v: "v = Math_sin (Math_atan2 (ToNumber (elem (ys t) i) - Fin 0.5) (xs t ! i - Fin 0.5))"
    by (auto simp: pan_def Let_def simp del: upt_Suc)
  from series_nth_finite(1,2) [OF i] obtain a b where "xs t ! i = Fin a" "ys t ! i = Fin b"
    by blast
  with i v show ?thesis
    by (simp add: elem_def del: Math_atan2.simps)
      (metis atan2_finite isFinite_iff Math_sin.simps(1) isFinite.simps(1))
qed

lemma gain_finite: "v \<in> set (gain t) \<Longrightarrow> isFinite v"
proof -
  assume "v \<in> set (gain t)"
  then obtain i where i: "i < length t"
    and v: "v = Fin 0.3 + Fin 0.5 * (spd t ! i) + Fin 0.1 * Math_sin (Fin (real i) * Fin 0.05)"
    by (auto simp: gain_def Let_def length_mappings simp del: upt_Suc)
  from series_nth_finite(4) [OF i] obtain s where "spd t ! i = Fin s" by blast
  with v show ?thesis by simp
qed

lemma cut_funky_finite: "v \<in> set (cut_funky t) \<Longrightarrow> isFinite v"
proof -
  assume "v \<in> set (cut_funky t)"
  then obtain w where "w \<in> set (zs t)" and v: "v = Fin 300 + w * Fin 8000"
    by (auto simp: cut_funky_def)
  then obtain r where "w = Fin r"
    using series_finite [of w t] by (auto simp: isFinite_iff)
  with v show ?thesis by simp
qed

lemma mappings_finite:
  "v \<in> set (cut_funky t) \<union> set (pan t) \<union> set (gain t) \<union> set (notes_part000 t) \<union>
      set (cut_part000 t) \<union> set (pan_part000 t) \<union> set (gain_part000 t) \<union>
      set (roots t) \<union> set (thirds t) \<union> set (fifths t) \<Longrightarrow> isFinite v"
  by (auto simp: notes_part000_def cut_part000_def pan_part000_def gain_part000_def roots_def
      thirds_def fifths_def clamp_finite
      dest: cut_funky_finite pan_finite gain_finite)

lemma norm_js_short:
  assumes "length (filter isFinite a) \<le> limit"
  shows "norm_js limit (Arr a) = Inr (norm_arr a)"
  using assms by (simp add: norm_js_Arr)

lemma norm_js_too_long:
  assumes "limit < length (filter isFinite a)"
  shows "norm_js limit (Arr a) = Inl RangeError"
  using assms by (auto simp: norm_js_Arr)

lemma norm_js_series:
  assumes "length t \<le> limit"
  shows "norm_js limit (Arr (map px t)) = Inr (xs t)"
    "norm_js limit (Arr (map py t)) = Inr (ys t)"
    "norm_js limit (Arr (map pz t)) = Inr (zs t)"
    "norm_js limit (Arr (rawSpd t)) = Inr (spd t)"
proof -
  have le: "length (filter isFinite a) \<le> limit" if "length a = length t" for a :: "number list"
    using assms that length_filter_le [of isFinite a] by simp
  show "norm_js limit (Arr (map px t)) = Inr (xs t)"
    unfolding xs_def by (rule norm_js_short, rule le) simp
  show "norm_js limit (Arr (map py t)) = Inr (ys t)"
    unfolding ys_def by (rule norm_js_short, rule le) simp
  show "norm_js limit (Arr (map pz t)) = Inr (zs t)"
    unfolding zs_def by (rule norm_js_short, rule le) simp
  show "norm_js limit (Arr (rawSpd t)) = Inr (spd t)"
    unfolding spd_def by (rule norm_js_short, rule le) (simp add: length_mappings)
qed

section \<open>Claims\<close>

text \<open>
  Claim C1.  Every element of every numeric control series handed to the playback engine
  is a finite number within the bounds the series is clamped to, whatever the trajectory
  \<open>t\<close> the series are computed from (its coordinates may be NaN or infinite): in the
  first script \<^verbatim>\<open>NOTES_SAFE\<close> in \<open>[36, 96]\<close>, \<^verbatim>\<open>CUT_SAFE\<close> in \<open>[100, 12000]\<close>, \<^verbatim>\<open>PAN_SAFE\<close>
  in \<open>[-1, 1]\<close>, \<^verbatim>\<open>GAIN_SAFE\<close> in \<open>[0.1, 0.9]\<close>, \<^verbatim>\<open>PAD_NOTES_SAFE\<close> in \<open>[36, 84]\<close>,
  \<^verbatim>\<open>PAD_CUT_SAFE\<close> in \<open>[200, 3000]\<close>; in the second \<^verbatim>\<open>NOTES_SAFE\<close> in \<open>[36, 96]\<close>,
  \<^verbatim>\<open>CUT_SAFE\<close> in \<open>[20, 12000]\<close>, \<^verbatim>\<open>PAN_SAFE\<close> in \<open>[-1, 1]\<close>, \<^verbatim>\<open>GAIN_SAFE\<close> in \<open>[0, 1]\<close>,
  \<^verbatim>\<open>ROOTS_SAFE\<close>, \<^verbatim>\<open>THIRDS_SAFE\<close> and \<^verbatim>\<open>FIFTHS_SAFE\<close> in \<open>[36, 96]\<close>.  In general, for every
  argument \<open>arr\<close> and all finite bounds \<open>lo \<le> hi\<close>, every element of
  \<^verbatim>\<open>clampArr(arr, lo, hi)\<close> is finite and lies in \<open>[lo, hi]\<close>.
\<close>

theorem control_series_finite_in_bounds:
  "(lo \<le> hi \<longrightarrow>
      (\<forall>v\<in>set (clampArr arr (Fin lo) (Fin hi)). isFinite v \<and> Fin lo \<le> v \<and> v \<le> Fin hi)) \<and>
   (\<forall>v\<in>set (NOTES_SAFE t). isFinite v \<and> Fin 36 \<le> v \<and> v \<le> Fin 96) \<and>
   (\<forall>v\<in>set (CUT_SAFE t). isFinite v \<and> Fin 100 \<le> v \<and> v \<le> Fin 12000) \<and>
   (\<forall>v\<in>set (PAN_SAFE t). isFinite v \<and> Fin (- 1) \<le> v \<and> v \<le> Fin 1) \<and>
   (\<forall>v\<in>set (GAIN_SAFE t). isFinite v \<and> Fin 0.1 \<le> v \<and> v \<le> Fin 0.9) \<and>
   (\<forall>v\<in>set (PAD_NOTES_SAFE t). isFinite v \<and> Fin 36 \<le> v \<and> v \<le> Fin 84) \<and>
   (\<forall>v\<in>set (PAD_CUT_SAFE t). isFinite v \<and> Fin 200 \<le> v \<and> v \<le> Fin 3000) \<and>
   (\<forall>v\<in>set (NOTES_SAFE_part000 t). isFinite v \<and> Fin 36 \<le> v \<and> v \<le> Fin 96) \<and>
   (\<forall>v\<in>set (CUT_SAFE_part000 t). isFinite v \<and> Fin 20 \<le> v \<and> v \<le> Fin 12000) \<and>
   (\<forall>v\<in>set (PAN_SAFE_part000 t). isFinite v \<and> Fin (- 1) \<le> v \<and> v \<le> Fin 1) \<and>
   (\<forall>v\<in>set (GAIN_SAFE_part000 t). isFinite v \<and> Fin 0.0 \<le> v \<and> v \<le> Fin 1.0) \<and>
   (\<forall>v\<in>set (ROOTS_SAFE t). isFinite v \<and> Fin 36 \<le> v \<and> v \<le> Fin 96) \<and>
   (\<forall>v\<in>set (THIRDS_SAFE t). isFinite v \<and> Fin 36 \<le> v \<and> v \<le> Fin 96) \<and>
   (\<forall>v\<in>set (FIFTHS_SAFE t). isFinite v \<and> Fin 36 \<le> v \<and> v \<le> Fin 96)"
  unfolding NOTES_SAFE_def CUT_SAFE_def PAN_SAFE_def GAIN_SAFE_def PAD_NOTES_SAFE_def
    PAD_CUT_SAFE_def NOTES_SAFE_part000_def CUT_SAFE_part000_def PAN_SAFE_part000_def
    GAIN_SAFE_part000_def ROOTS_SAFE_def THIRDS_SAFE_def FIFTHS_SAFE_def
  by (intro conjI impI clampArr_bounds) simp_all

theorem control_series_finite_in_bounds_witness:
  "(36::real) \<le> 96 \<and>
   clampArr (Arr [NaN, PInf, NInf, Fin 1000, Fin 60]) (Fin 36) (Fin 96)
     = [Fin 36, Fin 36, Fin 36, Fin 96, Fin 60] \<and>
   list_all (\<lambda>v. isFinite v \<and> Fin 36 \<le> v \<and> v \<le> Fin 96)
     (clampArr (Arr [NaN, PInf, NInf, Fin 1000, Fin 60]) (Fin 36) (Fin 96)) \<and>
   list_all (\<lambda>v. isFinite v \<and> Fin 36 \<le> v \<and> v \<le> Fin 96) (NOTES_SAFE sample) \<and>
   list_all (\<lambda>v. isFinite v \<and> Fin 36 \<le> v \<and> v \<le> Fin 96) (FIFTHS_SAFE sample)"
proof -
  have "clampArr (Arr [NaN, PInf, NInf, Fin 1000, Fin 60]) (Fin 36) (Fin 96)
     = [Fin 36, Fin 36, Fin 36, Fin 96, Fin 60]"
    by (simp add: clampArr_def safeArr_def safeNum_def clamp_Fin)
  then show ?thesis
    using control_series_finite_in_bounds
      [of 36 96 "Arr [NaN, PInf, NInf, Fin 1000, Fin 60]" sample]
    by (simp add: list_all_iff)
qed

text \<open>
  Claim C2.  For every step count \<open>N \<ge> 1\<close>, step size \<open>h\<close> and constants \<open>\<sigma>\<close>, \<open>\<rho>\<close>, \<open>\<beta>\<close>,
  the first state of the trajectory is the classic four-stage Runge-Kutta step of the
  Lorenz vector field applied to the initial condition \<open>(1, 1, 1)\<close>, and every later
  state is that step applied to the state before it; in both scripts.
\<close>

theorem lorenz_is_rk4:
  "1 \<le> N \<Longrightarrow>
     lorenz (Some N) (Some h) (Some sigma) (Some rho) (Some beta) ! 0
       = rk4 (lorenz_field sigma rho beta) h initial \<and>
     (\<forall>i. 1 \<le> i \<and> i < N \<longrightarrow>
        lorenz (Some N) (Some h) (Some sigma) (Some rho) (Some beta) ! i
          = rk4 (lorenz_field sigma rho beta) h
              (lorenz (Some N) (Some h) (Some sigma) (Some rho) (Some beta) ! (i - 1))) \<and>
     lorenz_part000 (Some N) (Some h) (Some sigma) (Some rho) (Some beta) ! 0
       = rk4 (lorenz_field sigma rho beta) h initial \<and>
     (\<forall>i. 1 \<le> i \<and> i < N \<longrightarrow>
        lorenz_part000 (Some N) (Some h) (Some sigma) (Some rho) (Some beta) ! i
          = rk4 (lorenz_field sigma rho beta) h
              (lorenz_part000 (Some N) (Some h) (Some sigma) (Some rho) (Some beta) ! (i - 1)))"
  unfolding lorenz_trace lorenz_part000_trace param.simps
  using trace_first [of N "rk4 (lorenz_field sigma rho beta) h" initial]
    trace_step [of _ N "rk4 (lorenz_field sigma rho beta) h" initial]
  by blast

theorem lorenz_is_rk4_witness:
  "(1::nat) \<le> 2 \<and> (1::nat) \<le> 1 \<and> (1::nat) < 2 \<and>
   lorenz (Some 2) (Some (Fin (1 / 100))) (Some (Fin 10)) (Some (Fin 28)) (Some (Fin (8 / 3))) ! 0
     = \<lparr>px = Fin (729048377573 / 720000000000),
        py = Fin (195942416091969055727 / 155520000000000000000),
        pz = Fin (76585121966515231279 / 77760000000000000000)\<rparr> \<and>
   lorenz (Some 2) (Some (Fin (1 / 100))) (Some (Fin 10)) (Some (Fin 28)) (Some (Fin (8 / 3))) ! 1
     = rk4 (lorenz_field (Fin 10) (Fin 28) (Fin (8 / 3))) (Fin (1 / 100))
         \<lparr>px = Fin (729048377573 / 720000000000),
        py = Fin (195942416091969055727 / 155520000000000000000),
        pz = Fin (76585121966515231279 / 77760000000000000000)\<rparr>"
  using lorenz_is_rk4 [of 2 "Fin (1 / 100)" "Fin 10" "Fin 28" "Fin (8 / 3)"]
  by (simp add: rk4_default_first)

text \<open>
  Claim C3, as amended.  For every array, \<^verbatim>\<open>norm\<close> returns an array of the same length;
  each non-finite element is replaced by \<open>0.5\<close>; each finite element is replaced by \<open>0.5\<close>
  when the finite elements are all equal, and otherwise by its min-max scaling over the
  finite elements when that value is finite, by \<open>0.5\<close> when it is not (a quotient that
  overflows); every element of the result lies in \<open>[0, 1]\<close>.  This holds whatever the
  subtraction and the division of the scaling step compute, the range for every
  order-preserving pair of them.
\<close>

theorem norm_scaled:
  "length (norm_with sub dv arr) = length arr \<and>
   (\<forall>i<length arr.
      (\<not> isFinite (arr ! i) \<longrightarrow> norm_with sub dv arr ! i = Fin 0.5) \<and>
      (isFinite (arr ! i) \<longrightarrow>
         norm_with sub dv arr ! i =
           (if Math_min (filter isFinite arr) = Math_max (filter isFinite arr) then Fin 0.5
            else if isFinite (scaled_with sub dv arr (arr ! i))
              then scaled_with sub dv arr (arr ! i)
            else Fin 0.5)) \<and>
      (order_preserving sub dv \<longrightarrow>
         Fin 0 \<le> norm_with sub dv arr ! i \<and> norm_with sub dv arr ! i \<le> Fin 1))"
proof (intro conjI allI impI)
  show "length (norm_with sub dv arr) = length arr" by (rule length_norm_with)
next
  fix i assume i: "i < length arr"
  show "norm_with sub dv arr ! i = Fin 0.5" if "\<not> isFinite (arr ! i)"
    using that norm_with_nth [OF i, of sub dv] by simp
  show "norm_with sub dv arr ! i =
           (if Math_min (filter isFinite arr) = Math_max (filter isFinite arr) then Fin 0.5
            else if isFinite (scaled_with sub dv arr (arr ! i))
              then scaled_with sub dv arr (arr ! i)
            else Fin 0.5)" if "isFinite (arr ! i)"
    using that norm_with_nth [OF i, of sub dv] by simp
  show "Fin 0 \<le> norm_with sub dv arr ! i" if "order_preserving sub dv"
    using norm_with_range [OF i that] by simp
  show "norm_with sub dv arr ! i \<le> Fin 1" if "order_preserving sub dv"
    using norm_with_range [OF i that] by simp
qed

text \<open>
  The claim without the case of equal finite elements fails: on \<^verbatim>\<open>[3, 3]\<close> the minimum
  and the maximum are both 3, \<^verbatim>\<open>norm\<close> returns \<open>0.5\<close> for the finite element 3, and its
  min-max scaling \<open>(3 - 3) / (3 - 3)\<close> is NaN.
\<close>

theorem norm_scaled_counterexample:
  "isFinite ([Fin 3, Fin 3] ! 0) \<and>
   norm_with (-) (/) [Fin 3, Fin 3] ! 0 = Fin 0.5 \<and>
   norm_arr [Fin 3, Fin 3] ! 0 = Fin 0.5 \<and>
   scaled_with (-) (/) [Fin 3, Fin 3] ([Fin 3, Fin 3] ! 0) = NaN \<and>
   norm_with (-) (/) [Fin 3, Fin 3] ! 0 \<noteq> scaled_with (-) (/) [Fin 3, Fin 3] ([Fin 3, Fin 3] ! 0)"
  by (simp add: norm_arr_def norm_with_def scaled_with_def Math_min_def Math_max_def min2_def
      max2_def strict_eq_def)

theorem norm_scaled_witness:
  "order_preserving (-) (/) \<and>
   length (norm_with (-) (/) [Fin 2, NaN, Fin 4, PInf, Fin 3]) = 5 \<and>
   \<not> isFinite ([Fin 2, NaN, Fin 4, PInf, Fin 3] ! 3) \<and>
   norm_with (-) (/) [Fin 2, NaN, Fin 4, PInf, Fin 3] ! 3 = Fin 0.5 \<and>
   isFinite ([Fin 2, NaN, Fin 4, PInf, Fin 3] ! 4) \<and>
   norm_with (-) (/) [Fin 2, NaN, Fin 4, PInf, Fin 3] ! 4 = Fin (1 / 2) \<and>
   Fin 0 \<le> norm_with (-) (/) [Fin 2, NaN, Fin 4, PInf, Fin 3] ! 4 \<and>
   norm_with (-) (/) [Fin 2, NaN, Fin 4, PInf, Fin 3] ! 4 \<le> Fin 1 \<and>
   order_preserving sub_overflow div_overflow \<and>
   isFinite ([Fin (2 ^ 1023), Fin (- (2 ^ 1023))] ! 0) \<and>
   scaled_with sub_overflow div_overflow [Fin (2 ^ 1023), Fin (- (2 ^ 1023))] (Fin (2 ^ 1023)) = NaN \<and>
   norm_with sub_overflow div_overflow [Fin (2 ^ 1023), Fin (- (2 ^ 1023))] ! 0 = Fin 0.5"
proof -
  let ?A = "[Fin 2, NaN, Fin 4, PInf, Fin 3]"
  let ?B = "[Fin (2 ^ 1023), Fin (- (2 ^ 1023))]"
  have m: "Math_min [Fin 2, Fin 4, Fin 3] = Fin 2" "Math_max [Fin 2, Fin 4, Fin 3] = Fin 4"
    by (simp_all add: Math_min_def Math_max_def min2_def max2_def)
  have a: "scaled_with (-) (/) ?A (Fin 3) = Fin (1 / 2)" by (simp add: scaled_with_def m)
  have mb: "Math_min (filter isFinite ?B) \<noteq> Math_max (filter isFinite ?B)"
    by (simp add: Math_min_def Math_max_def min2_def max2_def)
  have b: "scaled_with sub_overflow div_overflow ?B (?B ! 0) = NaN"
    by (simp add: scaled_with_def Math_min_def Math_max_def min2_def max2_def
        sub_overflow_def div_overflow_def)
  have first: "order_preserving (-) (/) \<and>
   length (norm_with (-) (/) ?A) = 5 \<and>
   \<not> isFinite (?A ! 3) \<and>
   norm_with (-) (/) ?A ! 3 = Fin 0.5 \<and>
   isFinite (?A ! 4) \<and>
   norm_with (-) (/) ?A ! 4 = Fin (1 / 2) \<and>
   Fin 0 \<le> norm_with (-) (/) ?A ! 4 \<and>
   norm_with (-) (/) ?A ! 4 \<le> Fin 1"
    using norm_scaled [of "(-)" "(/)" ?A] a m order_preserving_exact by simp
  have "0 < length ?B" by simp
  with norm_scaled [of sub_overflow div_overflow ?B]
  have "isFinite (?B ! 0) \<longrightarrow>
              norm_with sub_overflow div_overflow ?B ! 0 =
                (if Math_min (filter isFinite ?B) = Math_max (filter isFinite ?B) then Fin 0.5
                 else if isFinite (scaled_with sub_overflow div_overflow ?B (?B ! 0))
                   then scaled_with sub_overflow div_overflow ?B (?B ! 0)
                 else Fin 0.5)"
    by blast
  then have second: "norm_with sub_overflow div_overflow ?B ! 0 = Fin 0.5"
    unfolding b using mb by simp
  from b have b': "scaled_with sub_overflow div_overflow ?B (Fin (2 ^ 1023)) = NaN" by simp
  have fin: "isFinite (?B ! 0)" by simp
  from first order_preserving_overflow fin b' second show ?thesis by blast
qed

text \<open>
  Claim C4.  For every non-empty array whose elements are all equal, \<^verbatim>\<open>norm\<close> returns an
  array of the same length in which every element is \<open>0.5\<close>.
\<close>

theorem norm_arr_constant:
  "arr \<noteq> [] \<Longrightarrow> (\<forall>v\<in>set arr. v = c) \<Longrightarrow>
     length (norm_arr arr) = length arr \<and> (\<forall>v\<in>set (norm_arr arr). v = Fin 0.5)"
proof -
  assume "\<forall>v\<in>set arr. v = c"
  then have "replicate (length arr) c = arr" by (rule replicate_length_same)
  then have "norm_arr arr = replicate (length arr) (Fin 0.5)"
    using norm_arr_replicate [of "length arr" c] by simp
  then show ?thesis by simp
qed

theorem norm_arr_constant_witness:
  "[Fin 7, Fin 7, Fin 7] \<noteq> [] \<and> set [Fin 7, Fin 7, Fin 7] = {Fin 7} \<and>
   length (norm_arr [Fin 7, Fin 7, Fin 7]) = 3 \<and>
   set (norm_arr [Fin 7, Fin 7, Fin 7]) = {Fin 0.5}"
proof -
  have "norm_arr [Fin 7, Fin 7, Fin 7] = [Fin 0.5, Fin 0.5, Fin 0.5]"
    by (simp add: norm_arr_def Math_min_def Math_max_def min2_def max2_def strict_eq_def)
  then show ?thesis
    using norm_arr_constant [of "[Fin 7, Fin 7, Fin 7]" "Fin 7"] by simp
qed

text \<open>
  Claim C5.  For every array, \<^verbatim>\<open>diff\<close> returns an array of the same length; its first
  element, when there is one, is 0, and its element at every index \<open>i \<ge> 1\<close> is
  \<open>arr[i] - arr[i-1]\<close>.
\<close>

theorem diff_spec:
  "length (diff arr) = length arr \<and>
   (arr \<noteq> [] \<longrightarrow> diff arr ! 0 = Fin 0) \<and>
   (\<forall>i. 1 \<le> i \<and> i < length arr \<longrightarrow> diff arr ! i = arr ! i - arr ! (i - 1))"
  by (simp add: length_diff diff_nth)

theorem diff_spec_witness:
  "length (diff [Fin 5, Fin 7, NaN, Fin 1]) = 4 \<and>
   [Fin 5, Fin 7, NaN, Fin 1] \<noteq> [] \<and> diff [Fin 5, Fin 7, NaN, Fin 1] ! 0 = Fin 0 \<and>
   (1::nat) \<le> 1 \<and> 1 < length [Fin 5, Fin 7, NaN, Fin 1] \<and>
   diff [Fin 5, Fin 7, NaN, Fin 1] ! 1 = Fin 2"
  using diff_spec [of "[Fin 5, Fin 7, NaN, Fin 1]"] by simp

text \<open>
  Claim C6.  For every step count \<open>N\<close>, \<^verbatim>\<open>lorenz\<close> returns a trajectory of exactly \<open>N\<close>
  states, whatever the other arguments; for 0 steps the trajectory is empty; in both
  scripts.
\<close>

theorem lorenz_length:
  "length (lorenz (Some N) dt sigma rho beta) = N \<and>
   lorenz (Some 0) dt sigma rho beta = [] \<and>
   length (lorenz_part000 (Some N) dt sigma rho beta) = N \<and>
   lorenz_part000 (Some 0) dt sigma rho beta = []"
  by (simp add: lorenz_trace lorenz_part000_trace del: upt_Suc funpow.simps)

text \<open>
  Claim C8, as amended.  On numbers and arrays of numbers, NaN and the infinities
  included, no operation of the pipeline raises, and the numeric failure modes are
  handled by substituting a default.  \<^verbatim>\<open>norm\<close> returns, for every array whose finite
  elements are no more than the engine's bound on spread arguments, an array of the same
  length of finite numbers (\<open>0.5\<close> where the range is zero or the element is not finite);
  \<^verbatim>\<open>diff\<close> returns for every array; \<^verbatim>\<open>safeArr\<close> and \<^verbatim>\<open>clampArr\<close> return for every value,
  array or not; \<^verbatim>\<open>safeNum\<close> returns a finite number unchanged and its default for every
  other value; \<^verbatim>\<open>safeArr\<close>, \<^verbatim>\<open>clampArr\<close>, \<^verbatim>\<open>clamp\<close> and \<^verbatim>\<open>ensureFinite\<close> return finite numbers;
  \<^verbatim>\<open>lorenz\<close> returns its \<open>N\<close> states whatever its other arguments; on every trajectory
  \<open>t\<close> the calls of \<^verbatim>\<open>norm\<close> and \<^verbatim>\<open>diff\<close> that the scripts make return the series \<^verbatim>\<open>xs\<close>,
  \<^verbatim>\<open>ys\<close>, \<^verbatim>\<open>zs\<close>, \<^verbatim>\<open>spd\<close>, \<^verbatim>\<open>dxs\<close>, \<^verbatim>\<open>dys\<close>, \<^verbatim>\<open>dzs\<close>; the speed series never holds NaN (\<^verbatim>\<open>|| 0\<close>
  replaces it), the normalised series are finite whatever the integrator produced, and
  the musical mappings of both scripts have one value per state, all finite but for
  \<^verbatim>\<open>notes\<close> of the first script, which \<^verbatim>\<open>NOTES_SAFE\<close> makes finite.
\<close>

theorem no_raise_on_numbers:
  "(length (filter isFinite a) \<le> limit \<longrightarrow> norm_js limit (Arr a) = Inr (norm_arr a)) \<and>
   length (norm_arr a) = length a \<and>
   (\<forall>v\<in>set (norm_arr a). isFinite v) \<and>
   diff_js (Arr a) = Inr (diff a) \<and>
   length (diff a) = length a \<and>
   safeArr_js u d = Inr (safeArr u d) \<and>
   clampArr_js u lo hi = Inr (clampArr u lo hi) \<and>
   (isFinite n \<longrightarrow> safeNum (Num n) d = n) \<and>
   (\<not> isFinite (Number u) \<longrightarrow> safeNum u d = param d (Fin 0)) \<and>
   (\<forall>v\<in>set (safeArr u None). isFinite v) \<and>
   (\<forall>v\<in>set (clampArr u (Fin lo') (Fin hi')). isFinite v) \<and>
   isFinite (clamp val (Fin lo') (Fin hi')) \<and>
   (\<forall>v\<in>set (ensureFinite nested None).
      case v of Num n \<Rightarrow> isFinite n | Arr w \<Rightarrow> list_all isFinite w | Undefined \<Rightarrow> False) \<and>
   length (lorenz (Some N) dt sigma rho beta) = N \<and>
   length (lorenz_part000 (Some N) dt sigma rho beta) = N \<and>
   (length t \<le> limit \<longrightarrow>
      norm_js limit (Arr (map px t)) = Inr (xs t) \<and>
      norm_js limit (Arr (map py t)) = Inr (ys t) \<and>
      norm_js limit (Arr (map pz t)) = Inr (zs t) \<and>
      norm_js limit (Arr (rawSpd t)) = Inr (spd t)) \<and>
   diff_js (Arr (map px t)) = Inr (dxs t) \<and>
   diff_js (Arr (map py t)) = Inr (dys t) \<and>
   diff_js (Arr (map pz t)) = Inr (dzs t) \<and>
   length (rawSpd t) = length t \<and>
   (\<forall>v\<in>set (rawSpd t). v \<noteq> NaN) \<and>
   (\<forall>v\<in>set (xs t) \<union> set (ys t) \<union> set (zs t) \<union> set (spd t). isFinite v) \<and>
   length (notes_funky t) = length t \<and> length (cut_funky t) = length t \<and>
   length (pan t) = length t \<and> length (gain t) = length t \<and>
   length (notes_part000 t) = length t \<and> length (cut_part000 t) = length t \<and>
   length (pan_part000 t) = length t \<and> length (gain_part000 t) = length t \<and>
   (\<forall>v\<in>set (cut_funky t) \<union> set (pan t) \<union> set (gain t) \<union> set (notes_part000 t) \<union>
         set (cut_part000 t) \<union> set (pan_part000 t) \<union> set (gain_part000 t) \<union>
         set (roots t) \<union> set (thirds t) \<union> set (fifths t). isFinite v) \<and>
   (\<forall>v\<in>set (NOTES_SAFE t). isFinite v)"
proof (intro conjI ballI impI)
  show "norm_js limit (Arr a) = Inr (norm_arr a)" if "length (filter isFinite a) \<le> limit"
    using that by (rule norm_js_short)
  show "length (norm_arr a) = length a" by (rule length_norm_arr)
  show "isFinite v" if "v \<in> set (norm_arr a)" for v using that by (rule norm_arr_finite)
  show "diff_js (Arr a) = Inr (diff a)" by (rule diff_js_Arr)
  show "length (diff a) = length a" by (rule length_diff)
  show "safeArr_js u d = Inr (safeArr u d)" by (rule safeArr_js_returns)
  show "clampArr_js u lo hi = Inr (clampArr u lo hi)" by (rule clampArr_js_returns)
  show "safeNum (Num n) d = n" if "isFinite n" using that by (rule safeNum_keeps)
  show "safeNum u d = param d (Fin 0)" if "\<not> isFinite (Number u)"
    using that by (rule safeNum_default)
  show "isFinite v" if "v \<in> set (safeArr u None)" for v
    using that by (rule safeArr_None_finite)
  show "isFinite v" if "v \<in> set (clampArr u (Fin lo') (Fin hi'))" for v
    using that by (rule clampArr_finite)
  show "isFinite (clamp val (Fin lo') (Fin hi'))" by (rule clamp_finite)
  show "case v of Num n \<Rightarrow> isFinite n | Arr w \<Rightarrow> list_all isFinite w | Undefined \<Rightarrow> False"
    if "v \<in> set (ensureFinite nested None)" for v
    using that by (rule ensureFinite_finite)
  show "length (lorenz (Some N) dt sigma rho beta) = N"
    by (simp add: lorenz_trace del: upt_Suc funpow.simps)
  show "length (lorenz_part000 (Some N) dt sigma rho beta) = N"
    by (simp add: lorenz_part000_trace del: upt_Suc funpow.simps)
  show "norm_js limit (Arr (map px t)) = Inr (xs t)" if "length t \<le> limit"
    using that by (rule norm_js_series)
  show "norm_js limit (Arr (map py t)) = Inr (ys t)" if "length t \<le> limit"
    using that by (rule norm_js_series)
  show "norm_js limit (Arr (map pz t)) = Inr (zs t)" if "length t \<le> limit"
    using that by (rule norm_js_series)
  show "norm_js limit (Arr (rawSpd t)) = Inr (spd t)" if "length t \<le> limit"
    using that by (rule norm_js_series)
  show "diff_js (Arr (map px t)) = Inr (dxs t)" by (simp add: diff_js_Arr dxs_def)
  show "diff_js (Arr (map py t)) = Inr (dys t)" by (simp add: diff_js_Arr dys_def)
  show "diff_js (Arr (map pz t)) = Inr (dzs t)" by (simp add: diff_js_Arr dzs_def)
  show "length (rawSpd t) = length t" by (rule length_mappings)
  show "v \<noteq> NaN" if "v \<in> set (rawSpd t)" for v using that by (rule rawSpd_not_NaN)
  show "isFinite v" if "v \<in> set (xs t) \<union> set (ys t) \<union> set (zs t) \<union> set (spd t)" for v
    using that by (rule series_finite)
  show "length (notes_funky t) = length t" by (simp add: notes_funky_def del: upt_Suc)
  show "length (cut_funky t) = length t" by (rule length_mappings)
  show "length (pan t) = length t" by (rule length_mappings)
  show "length (gain t) = length t" by (rule length_mappings)
  show "length (notes_part000 t) = length t" by (rule length_mappings)
  show "length (cut_part000 t) = length t" by (rule length_mappings)
  show "length (pan_part000 t) = length t" by (rule length_mappings)
  show "length (gain_part000 t) = length t" by (rule length_mappings)
  show "isFinite v"
    if "v \<in> set (cut_funky t) \<union> set (pan t) \<union> set (gain t) \<union> set (notes_part000 t) \<union>
         set (cut_part000 t) \<union> set (pan_part000 t) \<union> set (gain_part000 t) \<union>
         set (roots t) \<union> set (thirds t) \<union> set (fifths t)" for v
    using that by (rule mappings_finite)
  show "isFinite v" if "v \<in> set (NOTES_SAFE t)" for v
    using that unfolding NOTES_SAFE_def by (rule clampArr_finite)
qed

text \<open>
  The claim as stated, for any input, fails: \<^verbatim>\<open>norm\<close> and \<^verbatim>\<open>diff\<close> call \<^verbatim>\<open>arr.filter\<close> and
  \<^verbatim>\<open>arr.map\<close> with no test of \<^verbatim>\<open>arr\<close>, and raise a \<^verbatim>\<open>TypeError\<close> on \<^verbatim>\<open>undefined\<close> and on a
  number.
\<close>

theorem no_raise_counterexample:
  "norm_js 65536 Undefined = Inl TypeError \<and>
   norm_js 65536 (Num (Fin 1)) = Inl TypeError \<and>
   diff_js Undefined = Inl TypeError \<and>
   diff_js (Num (Fin 1)) = Inl TypeError"
  by (simp add: norm_js_def js_filter_def diff_js_def js_map_index_def)

theorem no_raise_on_numbers_witness:
  "length (filter isFinite [NaN, Fin 1, PInf, Fin 3]) \<le> 65536 \<and>
   norm_js 65536 (Arr [NaN, Fin 1, PInf, Fin 3]) = Inr [Fin 0.5, Fin 0, Fin 0.5, Fin 1] \<and>
   diff_js (Arr [NaN, Fin 1, PInf, Fin 3]) = Inr [Fin 0, NaN, PInf, NInf] \<and>
   safeArr_js Undefined (Some (Fin 7)) = Inr [Fin 7] \<and>
   clampArr_js (Arr [NaN, Fin 5]) (Fin 1) (Fin 2) = Inr [Fin 1, Fin 2] \<and>
   isFinite (Fin 2) \<and> safeNum (Num (Fin 2)) (Some (Fin 7)) = Fin 2 \<and>
   \<not> isFinite (Number Undefined) \<and> safeNum Undefined (Some (Fin 7)) = Fin 7 \<and>
   isFinite (clamp NaN (Fin 1) (Fin 2)) \<and>
   ensureFinite (Some [Num NaN, Arr [PInf, Fin 2], Undefined]) None
     = [Num (Fin 0.5), Arr [Fin 0.5, Fin 2], Num (Fin 0.5)] \<and>
   length (lorenz (Some 3) None None None None) = 3 \<and>
   length sample \<le> 65536 \<and>
   norm_js 65536 (Arr (map px sample)) = Inr [Fin 0, Fin 1, Fin (1 / 2)] \<and>
   list_all isFinite (spd sample) \<and>
   list_all isFinite (gain sample) \<and>
   notes_funky sample = [NaN, NaN, Fin 77] \<and>
   list_all isFinite (NOTES_SAFE sample)"
proof -
  have "norm_arr [NaN, Fin 1, PInf, Fin 3] = [Fin 0.5, Fin 0, Fin 0.5, Fin 1]"
    by (simp add: norm_arr_def Math_min_def Math_max_def min2_def max2_def strict_eq_def)
  moreover have "diff [NaN, Fin 1, PInf, Fin 3] = [Fin 0, NaN, PInf, NInf]"
    by (simp add: diff_def elem_def upt_conv_Cons del: upt_Suc)
  moreover have "ensureFinite (Some [Num NaN, Arr [PInf, Fin 2], Undefined]) None
     = [Num (Fin 0.5), Arr [Fin 0.5, Fin 2], Num (Fin 0.5)]"
    by (simp add: ensureFinite_def Let_def)
  moreover have "safeArr Undefined (Some (Fin 7)) = [Fin 7]"
    by (simp add: safeArr_def safeNum_def)
  moreover have "clampArr (Arr [NaN, Fin 5]) (Fin 1) (Fin 2) = [Fin 1, Fin 2]"
    by (simp add: clampArr_def safeArr_def safeNum_def clamp_Fin)
  moreover have "length sample = 3" by (simp add: sample_def)
  ultimately show ?thesis
    using no_raise_on_numbers [where a = "[NaN, Fin 1, PInf, Fin 3]" and limit = 65536
        and u = Undefined and d = "Some (Fin 7)" and lo = "Fin 1" and hi = "Fin 2"
        and n = "Fin 2" and lo' = 1 and hi' = 2 and val = NaN
        and nested = "Some [Num NaN, Arr [PInf, Fin 2], Undefined]" and N = 3
        and dt = None and sigma = None and rho = None and beta = None and t = sample]
      no_raise_on_numbers [where u = "Arr [NaN, Fin 5]" and lo = "Fin 1" and hi = "Fin 2"]
    by (simp add: list_all_iff sample_series sample_first_script)
qed

text \<open>
  Claim C9.  In the first script, at every index \<open>i\<close> where the normalised coordinate
  \<^verbatim>\<open>xs[i]\<close> or \<^verbatim>\<open>ys[i]\<close> is exactly 1 (as \<^verbatim>\<open>xs[i]\<close> is at a maximal finite sample of an
  \<open>x\<close> axis that is not constant), the scale degree (respectively the octave index) is
  the length of the array it indexes, one past its end; \<^verbatim>\<open>notes[i]\<close> is NaN; the
  sanitising stage replaces it by 0 and the clamp makes \<^verbatim>\<open>NOTES_SAFE[i]\<close> the lower
  bound 36.
\<close>

theorem notes_top_of_range:
  "i < length t \<Longrightarrow>
     (isFinite (px (t ! i)) \<and> px (t ! i) = Math_max (filter isFinite (map px t)) \<and>
      Math_min (filter isFinite (map px t)) \<noteq> Math_max (filter isFinite (map px t)) \<longrightarrow>
        xs t ! i = Fin 1) \<and>
     (xs t ! i = Fin 1 \<longrightarrow>
        scaleDegree t ! i = Fin (real (length scale)) \<and>
        key scale (Some (scaleDegree t ! i)) = None) \<and>
     (ys t ! i = Fin 1 \<longrightarrow>
        octave t ! i = Fin (real (length octaves)) \<and>
        key octaves (elem (octave t) i) = None) \<and>
     (xs t ! i = Fin 1 \<or> ys t ! i = Fin 1 \<longrightarrow>
        notes_funky t ! i = NaN \<and>
        safeNum (Num (notes_funky t ! i)) None = Fin 0 \<and>
        NOTES_SAFE t ! i = Fin 36)"
proof -
  assume i: "i < length t"
  have m: "xs t ! i = Fin 1"
    if "isFinite (px (t ! i)) \<and> px (t ! i) = Math_max (filter isFinite (map px t)) \<and>
      Math_min (filter isFinite (map px t)) \<noteq> Math_max (filter isFinite (map px t))"
  proof -
    from that have a: "isFinite (px (t ! i))"
      and b: "px (t ! i) = Math_max (filter isFinite (map px t))"
      and c: "Math_min (filter isFinite (map px t)) \<noteq> Math_max (filter isFinite (map px t))"
      by blast+
    have "norm_arr (map px t) ! i = Fin 1"
    proof (rule norm_arr_max_one)
      show "i < length (map px t)" using i by simp
      show "isFinite (map px t ! i)" using a i by simp
      show "map px t ! i = Math_max (filter isFinite (map px t))" using b i by simp
      show "Math_min (filter isFinite (map px t)) \<noteq> Math_max (filter isFinite (map px t))"
        by (rule c)
    qed
    then show ?thesis by (simp add: xs_def)
  qed
  have x: "scaleDegree t ! i = Fin (real (length scale)) \<and>
        key scale (Some (scaleDegree t ! i)) = None" if "xs t ! i = Fin 1"
    using scaleDegree_top [OF i that] by (simp add: key_past_end del: key.simps) (simp add: scale_def)
  have y: "octave t ! i = Fin (real (length octaves)) \<and>
        key octaves (elem (octave t) i) = None" if "ys t ! i = Fin 1"
    using octave_top [OF i that] i
    by (simp add: key_past_end elem_def del: key.simps) (simp add: octaves_def)
  have n: "notes_funky t ! i = NaN \<and>
        safeNum (Num (notes_funky t ! i)) None = Fin 0 \<and>
        NOTES_SAFE t ! i = Fin 36" if "xs t ! i = Fin 1 \<or> ys t ! i = Fin 1"
    using notes_funky_NaN [OF i that] NOTES_SAFE_of_NaN [OF i] by (simp add: sanitize_NaN)
  from m x y n show ?thesis by blast
qed

theorem notes_top_of_range_witness:
  "(1::nat) < length sample \<and>
   isFinite (px (sample ! 1)) \<and>
   px (sample ! 1) = Math_max (filter isFinite (map px sample)) \<and>
   Math_min (filter isFinite (map px sample)) \<noteq> Math_max (filter isFinite (map px sample)) \<and>
   xs sample ! 1 = Fin 1 \<and>
   scaleDegree sample ! 1 = Fin 5 \<and>
   key scale (Some (scaleDegree sample ! 1)) = None \<and>
   notes_funky sample ! 1 = NaN \<and>
   NOTES_SAFE sample ! 1 = Fin 36"
proof -
  have "(1::nat) < length sample" "isFinite (px (sample ! 1))"
    "px (sample ! 1) = Math_max (filter isFinite (map px sample))"
    "Math_min (filter isFinite (map px sample)) \<noteq> Math_max (filter isFinite (map px sample))"
    by (simp_all add: sample_def Math_min_def Math_max_def min2_def max2_def)
  then show ?thesis
    using notes_top_of_range [of 1 sample] by (simp add: scale_def)
qed

text \<open>
  Claim C10.  The integrators of the two scripts return the same trajectory for every
  step count and all other arguments, given or left out; with the step count left out
  the first takes 4096 steps and the second 1536.
\<close>

theorem lorenz_files_agree:
  "lorenz (Some N) dt sigma rho beta = lorenz_part000 (Some N) dt sigma rho beta \<and>
   lorenz None dt sigma rho beta = lorenz_part000 (Some 4096) dt sigma rho beta \<and>
   lorenz_part000 None dt sigma rho beta = lorenz (Some 1536) dt sigma rho beta"
  by (simp add: lorenz_trace lorenz_part000_trace del: upt_Suc funpow.simps)

end
